theory Spec2Isabelle
  imports Main
begin

section \<open>Errors, the construct tree and annotations\<close>

text \<open>
  Every \<^verbatim>\<open>throw new Error(...)\<close> of the sources is a constructor of \<open>error\<close>.
  \<open>DuplicateConstruct\<close> is the error of the construct tree when an id is used twice under
  one scope, \<open>UnresolvedCidr\<close> and \<open>TypeError\<close> are the failures of the address arithmetic
  on a value that is no literal block.
\<close>

datatype error =
    DuplicateConstruct
  | DuplicateCidr
  | LocaleMismatch
  | NestingUnsupported
  | DuplicateTagRestrictionKey
  | MissingCidrDetails
  | MissingNetmask
  | TierMaskTooNarrow
  | InconsistentSubnetSize
  | SubnetMaskTooNarrow
  | AddressSpaceExhausted
  | PrefixTooWide
  | UnresolvedCidr
  | TypeError

type_synonym path = "string list"

text \<open>
  The classes of the sources extend \<^verbatim>\<open>Resource\<close>: \<^verbatim>\<open>new C(scope, id, props)\<close> registers the
  new object in the construct tree under \<^verbatim>\<open>scope\<close>, and an id may be used once under one
  scope (``A unique id must be used each time this method is invoked'', says the comment of
  \<^verbatim>\<open>addScope\<close>). The tree is shared mutable state, so it is an explicit store: the paths of
  the constructs created so far, in creation order. \<^verbatim>\<open>Annotations.of(this).addWarning\<close>
  appends to the second component. A raised error leaves the store as it was at the
  \<^verbatim>\<open>throw\<close>, so every operation returns the store next to its result or error.
\<close>

record World =
  constructs :: "path list"
  warnings :: "(path \<times> string) list"

definition newConstruct :: "path \<Rightarrow> string \<Rightarrow> World \<Rightarrow> (error + path) \<times> World" where
  "newConstruct scope ident w =
     (let p = scope @ [ident] in
      if p \<in> set (constructs w) then (Inl DuplicateConstruct, w)
      else (Inr p, w\<lparr>constructs := constructs w @ [p]\<rparr>))"

definition addWarning :: "path \<Rightarrow> string \<Rightarrow> World \<Rightarrow> World" where
  "addWarning p msg w = w\<lparr>warnings := warnings w @ [(p, msg)]\<rparr>"

text \<open>JavaScript truthiness of an optional string and of an optional number.\<close>

definition truthyString :: "string option \<Rightarrow> bool" where
  "truthyString s = (case s of None \<Rightarrow> False | Some v \<Rightarrow> v \<noteq> [])"

definition truthyNumber :: "nat option \<Rightarrow> bool" where
  "truthyNumber n = (case n of None \<Rightarrow> False | Some v \<Rightarrow> v \<noteq> 0)"

text \<open>
  \<^verbatim>\<open>Token.isUnresolved\<close> of the CDK core library: a string is unresolved when it carries the
  marker of an encoded token.
\<close>

fun Token_isUnresolved :: "string \<Rightarrow> bool" where
  "Token_isUnresolved [] = False"
| "Token_isUnresolved (c # cs) = (take 8 (c # cs) = ''${Token['' \<or> Token_isUnresolved cs)"

text \<open>
  Modelled from the spec: \<^verbatim>\<open>DynamicReference\<close> is outside the sources at hand. Its value is one
  of the spec's ``symbolic placeholders that resolve \<dots> at deploy time'': a token that
  names the construct and the attribute.
\<close>

definition DynamicReference_string :: "path \<Rightarrow> string \<Rightarrow> string" where
  "DynamicReference_string p attr = ''${Token['' @ concat (map (\<lambda>s. s @ ''/'') p) @ attr @ '']}''"

text \<open>\<^verbatim>\<open>idx.toString().padStart(3, '0')\<close>\<close>

function toString :: "nat \<Rightarrow> string" where
  "toString n =
     (if n < 10 then [''0123456789'' ! n]
      else toString (n div 10) @ [''0123456789'' ! (n mod 10)])"
  by pat_completeness auto
termination
  by (relation "measure id") auto

declare toString.simps [simp del]

definition padStart :: "nat \<Rightarrow> char \<Rightarrow> string \<Rightarrow> string" where
  "padStart n c s = replicate (n - length s) c @ s"

section \<open>IPAM pools\<close>

datatype PublicIpSource = PublicIpSource_of (source_name: string)

definition AMAZON :: PublicIpSource where
  "AMAZON = PublicIpSource_of ''amazon''"

definition BYOIP :: PublicIpSource where
  "BYOIP = PublicIpSource_of ''byoip''"

datatype IpFamily = IPV4 | IPV6

datatype AdvertiseService = AdvertiseService_of (service_name: string)

text \<open>
  Modelled from the spec: \<^verbatim>\<open>AddressConfiguration\<close> is declared outside the sources at hand.
  The spec gives a pool an address family and an optional \<open>advertiseService\<close>; the netmask
  lengths and \<open>publiclyAdvertisable\<close> are the further fields the constructor reads.
  \<^verbatim>\<open>AddressConfiguration.of\<close> is given the family and the three netmask lengths only,
  \<^verbatim>\<open>AddressConfiguration.ipv4()\<close> is the default of the constructor.
\<close>

record AddressConfiguration =
  advertiseService :: "AdvertiseService option"
  defaultNetmaskLength :: "nat option"
  family :: IpFamily
  maxNetmaskLength :: "nat option"
  minNetmaskLength :: "nat option"
  publiclyAdvertisable :: "bool option"

definition AddressConfiguration_of ::
  "nat option \<Rightarrow> IpFamily \<Rightarrow> nat option \<Rightarrow> nat option \<Rightarrow> AddressConfiguration" where
  "AddressConfiguration_of dflt fam mx mn =
     \<lparr>advertiseService = None, defaultNetmaskLength = dflt, family = fam,
      maxNetmaskLength = mx, minNetmaskLength = mn, publiclyAdvertisable = None\<rparr>"

definition AddressConfiguration_ipv4 :: AddressConfiguration where
  "AddressConfiguration_ipv4 = AddressConfiguration_of None IPV4 None None"

record IIpamScope =
  scope_path :: path
  ipamScopeArn :: string
  scopeType :: string

text \<open>
  The fields of class \<^verbatim>\<open>IpamPool\<close>. \<open>node_path\<close> is \<^verbatim>\<open>this.node.path\<close>, the identity of the
  object; a parent pool is referred to by its path. Of the deploy-time attributes only
  those read by the operations below are kept.
\<close>

record IpamPool =
  node_path :: path
  provisionedCidrs :: "string list"
  tagRestrictions :: "(string \<times> string) list"
  addressConfiguration :: AddressConfiguration
  autoImport :: "bool option"
  description :: "string option"
  ipamScope :: IIpamScope
  pool_locale :: "string option"
  pool_name :: "string option"
  parentPool :: "path option"
  publicIpSource :: "PublicIpSource option"
  ipamPoolId :: string
  ipamPoolScopeArn :: string
  ipamPoolScopeType :: string
  ipFamily :: IpFamily

record ResolvedIpamPoolCidrConfiguration =
  resolved_cidr :: "string option"

record IIpamPoolCidrConfiguration =
  inline :: bool
  bind :: "IpamPool \<Rightarrow> ResolvedIpamPoolCidrConfiguration"

record AddCidrToPoolOptions =
  allowInline :: "bool option"
  configuration :: IIpamPoolCidrConfiguration

text \<open>
  Modelled from the spec: class \<^verbatim>\<open>IpamPoolCidr\<close> is outside the sources at hand. On the
  path that is not inline the spec has ``a new \<open>Allocation\<close> child entity \<dots> created that
  defers resolution to the external provisioning layer'': a construct under the pool that
  keeps the options it was created with.
\<close>

record IpamPoolCidr =
  cidr_path :: path
  cidr_options :: AddCidrToPoolOptions
  cidr_ipamPool :: path

record AddCidrToPoolResult =
  result_cidr :: "IpamPoolCidr option"
  result_inline :: bool

record AddChildPoolOptions =
  opt_addressConfiguration :: "AddressConfiguration option"
  opt_autoImport :: "bool option"
  opt_defaultNetmaskLength :: "nat option"
  opt_maxNetmaskLength :: "nat option"
  opt_minNetmaskLength :: "nat option"
  opt_description :: "string option"
  opt_locale :: "string option"
  opt_name :: "string option"
  opt_provisionedCidrs :: "string list option"
  opt_tagRestrictions :: "(string \<times> string) list option"

record IpamPoolProps =
  props_addressConfiguration :: "AddressConfiguration option"
  props_autoImport :: "bool option"
  props_description :: "string option"
  props_locale :: "string option"
  props_name :: "string option"
  props_parentPool :: "IpamPool option"
  props_provisionedCidrs :: "string list option"
  props_publicIpSource :: "PublicIpSource option"
  props_tagRestrictions :: "(string \<times> string) list option"
  props_ipamScope :: IIpamScope

text \<open>
  Modelled from the spec: \<^verbatim>\<open>IpamAllocationOptions\<close> and class \<^verbatim>\<open>IpamAllocation\<close> are
  declared outside the sources at hand. The spec gives an allocation a reference to its
  source pool and a requested size, ``either explicit prefix length or implicit default''.
\<close>

record AllocateCidrFromPoolOptions =
  alloc_netmask :: "nat option"
  alloc_scope :: "path option"

record IpamAllocation =
  allocation_path :: path
  allocation_netmask :: "nat option"
  allocation_ipamPool :: path

subsection \<open>\<^verbatim>\<open>IpamPoolBase\<close>\<close>

definition IpamPoolBase_addCidrToPool ::
  "string \<Rightarrow> AddCidrToPoolOptions \<Rightarrow> IpamPool \<Rightarrow> World
     \<Rightarrow> (error + AddCidrToPoolResult) \<times> IpamPool \<times> World" where
  "IpamPoolBase_addCidrToPool ident options this w =
     (case newConstruct (node_path this) (''cidr-'' @ ident) w of
        (Inl e, w') \<Rightarrow> (Inl e, this, w')
      | (Inr p, w') \<Rightarrow>
          (Inr \<lparr>result_cidr =
                  Some \<lparr>cidr_path = p, cidr_options = options, cidr_ipamPool = node_path this\<rparr>,
                result_inline = False\<rparr>,
           this, w'))"

definition IpamPoolBase_allocateCidrFromPool ::
  "string \<Rightarrow> AllocateCidrFromPoolOptions \<Rightarrow> IpamPool \<Rightarrow> World
     \<Rightarrow> (error + IpamAllocation) \<times> IpamPool \<times> World" where
  "IpamPoolBase_allocateCidrFromPool ident options this w =
     (let scope = (case alloc_scope options of None \<Rightarrow> node_path this | Some s \<Rightarrow> s) in
      case newConstruct scope (''allocation-'' @ ident) w of
        (Inl e, w') \<Rightarrow> (Inl e, this, w')
      | (Inr p, w') \<Rightarrow>
          (Inr \<lparr>allocation_path = p, allocation_netmask = alloc_netmask options,
                allocation_ipamPool = node_path this\<rparr>,
           this, w'))"

subsection \<open>\<^verbatim>\<open>IpamPool\<close>\<close>

definition inlineFallbackWarning :: string where
  "inlineFallbackWarning =
     ''Attempted to register an inline IPAM pool CIDR using a'' @
     '' configuration that does not provide a concrete CIDR. This likely'' @
     '' indicates a misconfigured custom configuration. Attempting to fall'' @
     '' back to using a non-inline implementation. Because binding was'' @
     '' already attempted for an inline configuration consistency cannot'' @
     '' be guaranteed.''"

definition addCidrToPool ::
  "string \<Rightarrow> AddCidrToPoolOptions \<Rightarrow> IpamPool \<Rightarrow> World
     \<Rightarrow> (error + AddCidrToPoolResult) \<times> IpamPool \<times> World" where
  "addCidrToPool ident options this w =
     (if (case allowInline options of None \<Rightarrow> True | Some b \<Rightarrow> b) \<and> inline (configuration options)
      then
        (let cidr = resolved_cidr (bind (configuration options) this) in
         if \<not> truthyString cidr then
           IpamPoolBase_addCidrToPool ident options this
             (addWarning (node_path this) inlineFallbackWarning w)
         else if the cidr \<in> set (provisionedCidrs this) then (Inl DuplicateCidr, this, w)
         else (Inr \<lparr>result_cidr = None, result_inline = True\<rparr>,
               this\<lparr>provisionedCidrs := provisionedCidrs this @ [the cidr]\<rparr>, w))
      else IpamPoolBase_addCidrToPool ident options this w)"

text \<open>
  \<^verbatim>\<open>key in this._tagRestrictions\<close> holds for the keys stored in the object and for the
  properties every JavaScript object inherits.
\<close>

definition objectPrototypeKeys :: "string list" where
  "objectPrototypeKeys =
     [''constructor'', ''__defineGetter__'', ''__defineSetter__'', ''hasOwnProperty'',
      ''__lookupGetter__'', ''__lookupSetter__'', ''isPrototypeOf'', ''propertyIsEnumerable'',
      ''toString'', ''valueOf'', ''__proto__'', ''toLocaleString'']"

definition addTagRestriction ::
  "string \<Rightarrow> string \<Rightarrow> IpamPool \<Rightarrow> World \<Rightarrow> (error + unit) \<times> IpamPool \<times> World" where
  "addTagRestriction key val this w =
     (if key \<in> fst ` set (tagRestrictions this) \<or> key \<in> set objectPrototypeKeys
      then (Inl DuplicateTagRestrictionKey, this, w)
      else (Inr (), this\<lparr>tagRestrictions := tagRestrictions this @ [(key, val)]\<rparr>, w))"

definition validateChildLocale :: "IpamPool \<Rightarrow> string option \<Rightarrow> bool" where
  "validateChildLocale this loc =
     (if truthyString (pool_locale this) \<and> Token_isUnresolved (the (pool_locale this)) then
        (case loc of
           None \<Rightarrow> True
         | Some l \<Rightarrow> if Token_isUnresolved l then True else pool_locale this = Some l)
      else True)"

definition validateNestingSupport :: "IpamPool \<Rightarrow> bool" where
  "validateNestingSupport this =
     (let service = map_option service_name (advertiseService (addressConfiguration this));
          ipSource = map_option source_name (publicIpSource this)
      in \<not> (truthyString service \<and> ipSource = Some (source_name BYOIP)))"

text \<open>
  Modelled from the spec: \<^verbatim>\<open>IpamPoolCidrConfiguration.cidr\<close> is declared outside the sources
  at hand; the spec calls it a literal, directly-addressable block that is registered
  inline.
\<close>

definition IpamPoolCidrConfiguration_cidr :: "string \<Rightarrow> IIpamPoolCidrConfiguration" where
  "IpamPoolCidrConfiguration_cidr x = \<lparr>inline = True, bind = (\<lambda>_. \<lparr>resolved_cidr = Some x\<rparr>)\<rparr>"

text \<open>The loop \<^verbatim>\<open>props.provisionedCidrs?.forEach((x, idx) => ...)\<close> of the constructor.\<close>

fun addProvisionedCidrs ::
  "nat \<Rightarrow> string list \<Rightarrow> IpamPool \<Rightarrow> World \<Rightarrow> (error + unit) \<times> IpamPool \<times> World" where
  "addProvisionedCidrs idx [] this w = (Inr (), this, w)"
| "addProvisionedCidrs idx (x # xs) this w =
     (case addCidrToPool (''provisioned-'' @ padStart 3 (CHR ''0'') (toString idx))
             \<lparr>allowInline = Some True, configuration = IpamPoolCidrConfiguration_cidr x\<rparr> this w of
        (Inl e, this', w') \<Rightarrow> (Inl e, this', w')
      | (Inr _, this', w') \<Rightarrow> addProvisionedCidrs (Suc idx) xs this' w')"

text \<open>
  The constructor of \<^verbatim>\<open>IpamPool\<close>. The CloudFormation descriptor it creates under the new
  construct is handed to the provisioning layer and is not part of the model.
\<close>

definition IpamPool_new ::
  "path \<Rightarrow> string \<Rightarrow> IpamPoolProps \<Rightarrow> World \<Rightarrow> (error + IpamPool) \<times> World" where
  "IpamPool_new scope ident props w =
     (case newConstruct scope ident w of
        (Inl e, w') \<Rightarrow> (Inl e, w')
      | (Inr p, w') \<Rightarrow>
          (let ac = (case props_addressConfiguration props of
                       None \<Rightarrow> AddressConfiguration_ipv4 | Some a \<Rightarrow> a);
               this = \<lparr>node_path = p, provisionedCidrs = [], tagRestrictions = [],
                       addressConfiguration = ac,
                       autoImport = props_autoImport props,
                       description = props_description props,
                       ipamScope = props_ipamScope props,
                       pool_locale = props_locale props,
                       pool_name = props_name props,
                       parentPool = map_option node_path (props_parentPool props),
                       publicIpSource = props_publicIpSource props,
                       ipamPoolId = DynamicReference_string p ''Ref'',
                       ipamPoolScopeArn = DynamicReference_string p ''IpamScopeArn'',
                       ipamPoolScopeType = DynamicReference_string p ''IpamScopeType'',
                       ipFamily = family ac\<rparr>
           in case addProvisionedCidrs 0
                     (case props_provisionedCidrs props of None \<Rightarrow> [] | Some cs \<Rightarrow> cs) this w' of
                (Inl e, this', w'') \<Rightarrow> (Inl e, w'')
              | (Inr _, this', w'') \<Rightarrow> (Inr this', w'')))"

text \<open>
  Modelled from the spec: \<^verbatim>\<open>IpamScope.fromIpamScopeAttributes\<close> is outside the sources at hand.
  The spec groups the pools of a tree under one scope; the child refers to the scope of its
  parent through an import, which is a construct of its own under the pool, as
  \<^verbatim>\<open>Ipam.fromIpamAttributes\<close> makes one with \<^verbatim>\<open>new Import(scope, id)\<close>.
\<close>

definition IpamScope_fromIpamScopeAttributes ::
  "path \<Rightarrow> string \<Rightarrow> string \<Rightarrow> string \<Rightarrow> World \<Rightarrow> (error + IIpamScope) \<times> World" where
  "IpamScope_fromIpamScopeAttributes scope ident arn ty w =
     (case newConstruct scope ident w of
        (Inl e, w') \<Rightarrow> (Inl e, w')
      | (Inr p, w') \<Rightarrow> (Inr \<lparr>scope_path = p, ipamScopeArn = arn, scopeType = ty\<rparr>, w'))"

definition IpamPoolBase_addChildPool ::
  "string \<Rightarrow> AddChildPoolOptions \<Rightarrow> IpamPool \<Rightarrow> World
     \<Rightarrow> (error + IpamPool) \<times> IpamPool \<times> World" where
  "IpamPoolBase_addChildPool ident options this w =
     (case IpamScope_fromIpamScopeAttributes (node_path this) (''import-scope-'' @ ident)
             (ipamPoolScopeArn this) (ipamPoolScopeType this) w of
        (Inl e, w') \<Rightarrow> (Inl e, this, w')
      | (Inr sc, w') \<Rightarrow>
          (case IpamPool_new (node_path this) (''pool-'' @ ident)
                  \<lparr>props_addressConfiguration =
                     Some (AddressConfiguration_of (opt_defaultNetmaskLength options)
                             (ipFamily this) (opt_maxNetmaskLength options)
                             (opt_minNetmaskLength options)),
                   props_autoImport = opt_autoImport options,
                   props_description = opt_description options,
                   props_locale = opt_locale options,
                   props_name = opt_name options,
                   props_parentPool = Some this,
                   props_provisionedCidrs = opt_provisionedCidrs options,
                   props_publicIpSource = None,
                   props_tagRestrictions = opt_tagRestrictions options,
                   props_ipamScope = sc\<rparr> w' of
             (Inl e, w'') \<Rightarrow> (Inl e, this, w'')
           | (Inr child, w'') \<Rightarrow> (Inr child, this, w'')))"

definition emptyChildPoolOptions :: AddChildPoolOptions where
  "emptyChildPoolOptions =
     \<lparr>opt_addressConfiguration = None, opt_autoImport = None, opt_defaultNetmaskLength = None,
      opt_maxNetmaskLength = None, opt_minNetmaskLength = None, opt_description = None,
      opt_locale = None, opt_name = None, opt_provisionedCidrs = None,
      opt_tagRestrictions = None\<rparr>"

text \<open>
  \<^verbatim>\<open>addChildPool(id, options?)\<close>: the spread \<^verbatim>\<open>{ locale: this.locale, ...options }\<close> keeps the
  locale of the options when they carry one and the locale of this pool otherwise.
\<close>

definition addChildPool ::
  "string \<Rightarrow> AddChildPoolOptions option \<Rightarrow> IpamPool \<Rightarrow> World
     \<Rightarrow> (error + IpamPool) \<times> IpamPool \<times> World" where
  "addChildPool ident options this w =
     (if \<not> validateChildLocale this (case options of None \<Rightarrow> None | Some opts \<Rightarrow> opt_locale opts)
      then (Inl LocaleMismatch, this, w)
      else if validateNestingSupport this then (Inl NestingUnsupported, this, w)
      else
        (let opts = (case options of None \<Rightarrow> emptyChildPoolOptions | Some opts \<Rightarrow> opts) in
         IpamPoolBase_addChildPool ident
           (opts\<lparr>opt_locale := (case opt_locale opts of None \<Rightarrow> pool_locale this | Some l \<Rightarrow> Some l)\<rparr>)
           this w))"

section \<open>The IPAM container\<close>

record IIpamResourceDiscovery =
  discovery_addr :: string
  ipamResourceDiscoveryId :: string

text \<open>
  The container: \<open>ipamScopeCount\<close> is the attribute ``The number of scopes in the IPAM. The
  scope quota is 5.'', known for an imported IPAM only when the import states it.
\<close>

record Ipam =
  ipam_path :: path
  ipamId :: string
  ipamScopeCount :: "nat option"

record IpamResourceDiscoveryAssociation =
  association_path :: path
  association_ipam :: path
  association_ipamResourceDiscovery :: IIpamResourceDiscovery

text \<open>
  Modelled from the spec: \<^verbatim>\<open>PrivateIpamScopeOptions\<close> and class \<^verbatim>\<open>PrivateIpamScope\<close> are
  declared outside the sources at hand. The spec gives a scope an identity and a reference
  to its owning container, and leaves the quota to the container: ``enforced at creation
  time by the container, not by the scope itself''.
\<close>

record PrivateIpamScopeOptions =
  scope_description :: "string option"

record PrivateIpamScope =
  private_scope_path :: path
  private_scope_options :: PrivateIpamScopeOptions
  private_scope_ipam :: path

definition addScope ::
  "string \<Rightarrow> PrivateIpamScopeOptions \<Rightarrow> Ipam \<Rightarrow> World \<Rightarrow> (error + PrivateIpamScope) \<times> World" where
  "addScope ident options this w =
     (case newConstruct (ipam_path this) (''scope-'' @ ident) w of
        (Inl e, w') \<Rightarrow> (Inl e, w')
      | (Inr p, w') \<Rightarrow>
          (Inr \<lparr>private_scope_path = p, private_scope_options = options,
                private_scope_ipam = ipam_path this\<rparr>, w'))"

definition IpamResourceDiscoveryAssociation_new ::
  "path \<Rightarrow> string \<Rightarrow> Ipam \<Rightarrow> IIpamResourceDiscovery \<Rightarrow> World
     \<Rightarrow> (error + IpamResourceDiscoveryAssociation) \<times> World" where
  "IpamResourceDiscoveryAssociation_new scope ident ipam discovery w =
     (case newConstruct scope ident w of
        (Inl e, w') \<Rightarrow> (Inl e, w')
      | (Inr p, w') \<Rightarrow>
          (Inr \<lparr>association_path = p, association_ipam = ipam_path ipam,
                association_ipamResourceDiscovery = discovery\<rparr>, w'))"

definition associateResourceDiscovery ::
  "IIpamResourceDiscovery \<Rightarrow> Ipam \<Rightarrow> World
     \<Rightarrow> (error + IpamResourceDiscoveryAssociation) \<times> World" where
  "associateResourceDiscovery resourceDiscovery this w =
     IpamResourceDiscoveryAssociation_new (ipam_path this)
       (''resource-discovery-'' @ discovery_addr resourceDiscovery) this resourceDiscovery w"

text \<open>The scopes and the discovery associations a container holds in the construct tree.\<close>

definition scopesOf :: "Ipam \<Rightarrow> World \<Rightarrow> path list" where
  "scopesOf this w =
     filter (\<lambda>p. p \<noteq> [] \<and> butlast p = ipam_path this \<and> take 6 (last p) = ''scope-'')
       (constructs w)"

definition associationsOf :: "Ipam \<Rightarrow> IIpamResourceDiscovery \<Rightarrow> World \<Rightarrow> path list" where
  "associationsOf this resourceDiscovery w =
     filter (\<lambda>p. p = ipam_path this @ [''resource-discovery-'' @ discovery_addr resourceDiscovery])
       (constructs w)"

section \<open>Address arithmetic\<close>

text \<open>
  A CIDR string of the sources is either the literal \<^verbatim>\<open>a.b.c.d/p\<close>, kept as its base address
  and prefix length, or a deploy-time value: a token, or the intrinsic
  \<^verbatim>\<open>Fn.select(i, Fn.cidr(block, count, bits))\<close>.
\<close>

datatype cidr = Literal nat nat | Token string | FnSelect nat cidrs
  and cidrs = FnCidr cidr nat int

definition ipv4 :: "nat \<Rightarrow> nat \<Rightarrow> nat \<Rightarrow> nat \<Rightarrow> nat" where
  "ipv4 a b c d = ((a * 256 + b) * 256 + c) * 256 + d"

text \<open>The least number of bits \<open>k\<close> with \<open>n \<le> 2 ^ k\<close>.\<close>

function splitBits :: "nat \<Rightarrow> nat" where
  "splitBits n = (if n \<le> 1 then 0 else Suc (splitBits ((n + 1) div 2)))"
  by pat_completeness auto
termination
  by (relation "measure id") auto

declare splitBits.simps [simp del]

text \<open>
  Modelled from the spec: \<^verbatim>\<open>getBiggestMask\<close> of \<^verbatim>\<open>utils/networking\<close> is outside the sources
  at hand. It is \<open>biggestChildPrefix(parentPrefix, childCount)\<close> of the spec: ``the smallest
  prefix \<open>p \<ge> parentPrefix\<close> with \<open>2^(p-parentPrefix) \<ge> childCount\<close>, and fails if \<open>p\<close> would
  exceed 32''.
\<close>

definition getBiggestMask :: "nat \<Rightarrow> nat \<Rightarrow> error + nat" where
  "getBiggestMask parentPrefix childCount =
     (let p = parentPrefix + splitBits childCount in
      if 32 < p then Inl AddressSpaceExhausted else Inr p)"

definition childBlocks :: "nat \<Rightarrow> nat \<Rightarrow> nat \<Rightarrow> cidr list" where
  "childBlocks base childPrefix childCount =
     map (\<lambda>i. Literal (base + i * 2 ^ (32 - childPrefix)) childPrefix) [0..<childCount]"

text \<open>
  Modelled from the spec: \<^verbatim>\<open>divideCidr\<close> of \<^verbatim>\<open>utils/networking\<close> is outside the sources at
  hand. It is \<open>partition(parent, childCount, explicitChildPrefix?)\<close> of the spec in direct
  mode, ``pure bit arithmetic over \<open>parent.base\<close>, producing fully resolved blocks'': an
  explicit child prefix ``must be \<open>\<ge> biggestChildPrefix\<close>'' and ``fails with \<open>PrefixTooWide\<close>
  when a caller requests a child block larger than the engine's computed maximum;
  otherwise returns \<open>childCount\<close> contiguous, non-overlapping, equal-sized blocks covering a
  prefix of \<open>parent\<close>, in ascending address order''. A parent that is no literal has no
  base address to compute with. The spec does not say what becomes of an explicit prefix
  above 32; the theorems below do not speak of one.
\<close>

fun divideCidr :: "cidr \<Rightarrow> nat \<Rightarrow> nat option \<Rightarrow> error + cidr list" where
  "divideCidr (Literal base parentPrefix) childCount explicitMask =
     (case getBiggestMask parentPrefix childCount of
        Inl e \<Rightarrow> Inl e
      | Inr biggest \<Rightarrow>
          (case explicitMask of
             None \<Rightarrow> Inr (childBlocks base biggest childCount)
           | Some m \<Rightarrow>
               if m < biggest then Inl PrefixTooWide else Inr (childBlocks base m childCount)))"
| "divideCidr _ childCount explicitMask = Inl UnresolvedCidr"

section \<open>Tiered subnets\<close>

record SubnetConfiguration =
  subnet_name :: string
  cidrMask :: "nat option"

record RequestedSubnet =
  availabilityZone :: string
  subnet_configuration :: SubnetConfiguration

record AllocateCidrRequest =
  vpcCidr :: cidr
  requestedSubnets :: "RequestedSubnet list"

record SubnetIpamOptions =
  allocatedSubnets :: "cidr option list"

record VpcIpamOptions =
  cidrBlock :: "cidr option"
  ipv4IpamPoolId :: "string option"
  ipv4NetmaskLength :: "nat option"

record CidrDetails =
  details_cidr :: cidr
  details_netmask :: nat

record IpamDetails =
  details_ipamPool :: "IpamPool option"
  details_ipamNetmask :: nat

record CidrOrIpamConfiguration =
  cidrDetails :: "CidrDetails option"
  ipamDetails :: "IpamDetails option"

record TieredSubnets =
  ipamOptions :: VpcIpamOptions
  ipamPool :: "IpamPool option"
  netmask :: nat
  tierMask :: "nat option"

definition TieredSubnets_new :: "CidrOrIpamConfiguration \<Rightarrow> nat option \<Rightarrow> error + TieredSubnets" where
  "TieredSubnets_new config optionsTierMask =
     (case cidrDetails config of
        Some cd \<Rightarrow>
          Inr \<lparr>ipamOptions = \<lparr>cidrBlock = Some (details_cidr cd), ipv4IpamPoolId = None,
                               ipv4NetmaskLength = None\<rparr>,
               ipamPool = None, netmask = details_netmask cd, tierMask = optionsTierMask\<rparr>
      | None \<Rightarrow>
          (case ipamDetails config of
             Some idt \<Rightarrow>
               Inr \<lparr>ipamOptions =
                      \<lparr>cidrBlock = None,
                       ipv4IpamPoolId = map_option ipamPoolId (details_ipamPool idt),
                       ipv4NetmaskLength = Some (details_ipamNetmask idt)\<rparr>,
                    ipamPool = details_ipamPool idt, netmask = details_ipamNetmask idt,
                    tierMask = optionsTierMask\<rparr>
           | None \<Rightarrow> Inl MissingCidrDetails))"

text \<open>
  \<^verbatim>\<open>Array.from(new Set(xs))\<close>: the distinct values of \<open>xs\<close> in the order of their first
  occurrence; \<^verbatim>\<open>undefined\<close> is a value of the set like any other.
\<close>

definition fromSet :: "'a list \<Rightarrow> 'a list" where
  "fromSet xs = fold (\<lambda>x acc. if x \<in> set acc then acc else acc @ [x]) xs []"

definition tiersOf :: "AllocateCidrRequest \<Rightarrow> string list" where
  "tiersOf input = fromSet (map (\<lambda>x. subnet_name (subnet_configuration x)) (requestedSubnets input))"

definition azsOf :: "AllocateCidrRequest \<Rightarrow> string list" where
  "azsOf input = fromSet (map availabilityZone (requestedSubnets input))"

definition tierSubnetsOf :: "AllocateCidrRequest \<Rightarrow> string \<Rightarrow> RequestedSubnet list" where
  "tierSubnetsOf input tier =
     filter (\<lambda>x. subnet_name (subnet_configuration x) = tier) (requestedSubnets input)"

text \<open>\<^verbatim>\<open>xs[i]\<close> of JavaScript: \<^verbatim>\<open>undefined\<close> out of range.\<close>

definition at :: "'a list \<Rightarrow> nat \<Rightarrow> 'a option" where
  "at xs i = (if i < length xs then Some (xs ! i) else None)"

definition first :: "'a option list \<Rightarrow> 'a option" where
  "first xs = (case xs of [] \<Rightarrow> None | x # _ \<Rightarrow> x)"

text \<open>
  \<^verbatim>\<open>tiers.forEach((tier, tIdx) => { networkMap[tier] = {}; ... })\<close>: the body runs for each
  tier in order and the first error ends the loop.
\<close>

fun forEachTier ::
  "(nat \<Rightarrow> string \<Rightarrow> error + (string \<times> cidr option) list) \<Rightarrow> nat \<Rightarrow> string list
     \<Rightarrow> error + (string \<times> (string \<times> cidr option) list) list" where
  "forEachTier body tIdx [] = Inr []"
| "forEachTier body tIdx (tier # rest) =
     (case body tIdx tier of
        Inl e \<Rightarrow> Inl e
      | Inr azMap \<Rightarrow>
          (case forEachTier body (Suc tIdx) rest of
             Inl e \<Rightarrow> Inl e
           | Inr networkMap \<Rightarrow> Inr ((tier, azMap) # networkMap)))"

definition lookupNetwork ::
  "(string \<times> (string \<times> cidr option) list) list \<Rightarrow> string \<Rightarrow> string \<Rightarrow> cidr option" where
  "lookupNetwork networkMap tier az =
     (case map_of networkMap tier of
        None \<Rightarrow> None
      | Some azMap \<Rightarrow> (case map_of azMap az of None \<Rightarrow> None | Some c \<Rightarrow> c))"

definition allocatedFrom ::
  "(string \<times> (string \<times> cidr option) list) list \<Rightarrow> AllocateCidrRequest \<Rightarrow> SubnetIpamOptions" where
  "allocatedFrom networkMap input =
     \<lparr>allocatedSubnets =
        map (\<lambda>x. lookupNetwork networkMap (subnet_name (subnet_configuration x)) (availabilityZone x))
          (requestedSubnets input)\<rparr>"

text \<open>The body of the loop over the tiers in \<^verbatim>\<open>allocateSubnetsCidrIpam\<close>.\<close>

definition ipamTier ::
  "AllocateCidrRequest \<Rightarrow> nat \<Rightarrow> cidrs \<Rightarrow> nat \<Rightarrow> string \<Rightarrow> error + (string \<times> cidr option) list" where
  "ipamTier input effectiveTierMask tierNetworks tIdx tier =
     (let tierNetwork = FnSelect tIdx tierNetworks;
          tierSubnets = tierSubnetsOf input tier;
          subnetMask = fromSet (map (\<lambda>x. cidrMask (subnet_configuration x)) tierSubnets)
      in case getBiggestMask effectiveTierMask (length tierSubnets) of
           Inl e \<Rightarrow> Inl e
         | Inr biggestSubnetMask \<Rightarrow>
             if 1 < length subnetMask then Inl InconsistentSubnetSize
             else if truthyNumber (first subnetMask) \<and> biggestSubnetMask < the (first subnetMask)
             then Inl SubnetMaskTooNarrow
             else
               (let effectiveSubnetMask =
                      (case first subnetMask of None \<Rightarrow> biggestSubnetMask | Some m \<Rightarrow> m);
                    subnetNetworks =
                      FnCidr tierNetwork (length tierSubnets) (32 - int effectiveSubnetMask)
                in Inr (map (\<lambda>(azIdx, az). (az, Some (FnSelect azIdx subnetNetworks)))
                          (enumerate 0 (azsOf input)))))"

definition allocateSubnetsCidrIpam :: "TieredSubnets \<Rightarrow> AllocateCidrRequest \<Rightarrow> error + SubnetIpamOptions" where
  "allocateSubnetsCidrIpam this input =
     (let tiers = tiersOf input in
      case ipv4NetmaskLength (ipamOptions this) of
        None \<Rightarrow> Inl MissingNetmask
      | Some netmaskLength \<Rightarrow>
          (case getBiggestMask netmaskLength (length tiers) of
             Inl e \<Rightarrow> Inl e
           | Inr biggestMaskTier \<Rightarrow>
               if truthyNumber (tierMask this) \<and> biggestMaskTier < the (tierMask this)
               then Inl TierMaskTooNarrow
               else
                 (let effectiveTierMask =
                        (case tierMask this of None \<Rightarrow> biggestMaskTier | Some m \<Rightarrow> m);
                      tierNetworks =
                        FnCidr (vpcCidr input) (length tiers) (32 - int effectiveTierMask)
                  in case forEachTier (ipamTier input effectiveTierMask tierNetworks) 0 tiers of
                       Inl e \<Rightarrow> Inl e
                     | Inr networkMap \<Rightarrow> Inr (allocatedFrom networkMap input))))"

text \<open>The body of the loop over the tiers in \<^verbatim>\<open>allocateSubnetsCidrNoIpam\<close>.\<close>

definition noIpamTier ::
  "AllocateCidrRequest \<Rightarrow> cidr list \<Rightarrow> nat \<Rightarrow> string \<Rightarrow> error + (string \<times> cidr option) list" where
  "noIpamTier input tierNetworks tIdx tier =
     (let tierSubnets = tierSubnetsOf input tier;
          maskBits = fromSet (map (\<lambda>x. cidrMask (subnet_configuration x)) tierSubnets);
          azs = azsOf input
      in if 1 < length maskBits then Inl InconsistentSubnetSize
         else
           (case at tierNetworks tIdx of
              None \<Rightarrow> Inl TypeError
            | Some tierNetwork \<Rightarrow>
                (case divideCidr tierNetwork (length azs) (first maskBits) of
                   Inl e \<Rightarrow> Inl e
                 | Inr azNetworks \<Rightarrow>
                     Inr (map (\<lambda>(azIdx, az). (az, at azNetworks azIdx)) (enumerate 0 azs)))))"

definition allocateSubnetsCidrNoIpam :: "TieredSubnets \<Rightarrow> AllocateCidrRequest \<Rightarrow> error + SubnetIpamOptions" where
  "allocateSubnetsCidrNoIpam this input =
     (let tiers = tiersOf input in
      case divideCidr (vpcCidr input) (length tiers) (tierMask this) of
        Inl e \<Rightarrow> Inl e
      | Inr tierNetworks \<Rightarrow>
          (case forEachTier (noIpamTier input tierNetworks) 0 tiers of
             Inl e \<Rightarrow> Inl e
           | Inr networkMap \<Rightarrow> Inr (allocatedFrom networkMap input)))"

definition allocateSubnetsCidr :: "TieredSubnets \<Rightarrow> AllocateCidrRequest \<Rightarrow> error + SubnetIpamOptions" where
  "allocateSubnetsCidr this input =
     (if cidrBlock (ipamOptions this) \<noteq> None then allocateSubnetsCidrNoIpam this input
      else allocateSubnetsCidrIpam this input)"

text \<open>
  The two conditions on the subnets requested for one tier: two subnets carry different
  explicit masks, and all subnets carry the same mask or none.
\<close>

definition mixedSizes :: "AllocateCidrRequest \<Rightarrow> string \<Rightarrow> bool" where
  "mixedSizes input tier =
     (\<exists>x\<in>set (tierSubnetsOf input tier). \<exists>y\<in>set (tierSubnetsOf input tier).
        cidrMask (subnet_configuration x) \<noteq> None \<and> cidrMask (subnet_configuration y) \<noteq> None \<and>
        cidrMask (subnet_configuration x) \<noteq> cidrMask (subnet_configuration y))"

definition uniformSizes :: "AllocateCidrRequest \<Rightarrow> string \<Rightarrow> bool" where
  "uniformSizes input tier =
     (\<forall>x\<in>set (tierSubnetsOf input tier). \<forall>y\<in>set (tierSubnetsOf input tier).
        cidrMask (subnet_configuration x) = cidrMask (subnet_configuration y))"

section \<open>Example pools, containers and requests\<close>

definition emptyWorld :: World where
  "emptyWorld = \<lparr>constructs = [], warnings = []\<rparr>"

definition examplePool ::
  "string option \<Rightarrow> AdvertiseService option \<Rightarrow> PublicIpSource option \<Rightarrow> IpamPool" where
  "examplePool loc service source =
     \<lparr>node_path = [''Stack'', ''pool''], provisionedCidrs = [], tagRestrictions = [],
      addressConfiguration = AddressConfiguration_ipv4\<lparr>advertiseService := service\<rparr>,
      autoImport = None, description = None,
      ipamScope = \<lparr>scope_path = [''Stack'', ''scope''], ipamScopeArn = ''arn'', scopeType = ''public''\<rparr>,
      pool_locale = loc, pool_name = None, parentPool = None, publicIpSource = source,
      ipamPoolId = ''ipam-pool-0'', ipamPoolScopeArn = ''arn'', ipamPoolScopeType = ''public'',
      ipFamily = IPV4\<rparr>"

definition childLocale :: "string \<Rightarrow> AddChildPoolOptions option" where
  "childLocale l = Some (emptyChildPoolOptions\<lparr>opt_locale := Some l\<rparr>)"

definition inlineCidr :: "string \<Rightarrow> AddCidrToPoolOptions" where
  "inlineCidr x = \<lparr>allowInline = None, configuration = IpamPoolCidrConfiguration_cidr x\<rparr>"

definition unboundConfiguration :: AddCidrToPoolOptions where
  "unboundConfiguration =
     \<lparr>allowInline = Some True,
      configuration = \<lparr>inline = True, bind = (\<lambda>_. \<lparr>resolved_cidr = None\<rparr>)\<rparr>\<rparr>"

definition exampleProps :: "string list \<Rightarrow> IpamPoolProps" where
  "exampleProps cidrs =
     \<lparr>props_addressConfiguration = None, props_autoImport = None, props_description = None,
      props_locale = None, props_name = None, props_parentPool = None,
      props_provisionedCidrs = Some cidrs, props_publicIpSource = None,
      props_tagRestrictions = None,
      props_ipamScope = \<lparr>scope_path = [''Stack'', ''scope''], ipamScopeArn = ''arn'', scopeType = ''private''\<rparr>\<rparr>"

definition exampleIpam :: Ipam where
  "exampleIpam = \<lparr>ipam_path = [''Stack'', ''ipam''], ipamId = ''ipam-0'', ipamScopeCount = Some 5\<rparr>"

definition fiveScopes :: World where
  "fiveScopes =
     \<lparr>constructs = map (\<lambda>s. [''Stack'', ''ipam'', ''scope-'' @ s]) [''a'', ''b'', ''c'', ''d'', ''e''],
      warnings = []\<rparr>"

definition exampleDiscovery :: IIpamResourceDiscovery where
  "exampleDiscovery = \<lparr>discovery_addr = ''c8a1'', ipamResourceDiscoveryId = ''ipam-res-disco-0''\<rparr>"

definition requested :: "string \<Rightarrow> string \<Rightarrow> nat option \<Rightarrow> RequestedSubnet" where
  "requested tier az m =
     \<lparr>availabilityZone = az, subnet_configuration = \<lparr>subnet_name = tier, cidrMask = m\<rparr>\<rparr>"

definition cidrTiers :: "nat option \<Rightarrow> TieredSubnets" where
  "cidrTiers tm =
     \<lparr>ipamOptions = \<lparr>cidrBlock = Some (Literal (ipv4 10 0 0 0) 16), ipv4IpamPoolId = None,
                     ipv4NetmaskLength = None\<rparr>,
      ipamPool = None, netmask = 16, tierMask = tm\<rparr>"

definition ipamTiers :: "nat option \<Rightarrow> TieredSubnets" where
  "ipamTiers tm =
     \<lparr>ipamOptions = \<lparr>cidrBlock = None, ipv4IpamPoolId = Some ''ipam-pool-0'',
                     ipv4NetmaskLength = Some 16\<rparr>,
      ipamPool = Some (examplePool None None None), netmask = 16, tierMask = tm\<rparr>"

definition unevenRequest :: "cidr \<Rightarrow> AllocateCidrRequest" where
  "unevenRequest vpc =
     \<lparr>vpcCidr = vpc,
      requestedSubnets =
        [requested ''a'' ''z1'' None, requested ''a'' ''z2'' None, requested ''a'' ''z3'' None,
         requested ''a'' ''z4'' None, requested ''b'' ''z1'' None, requested ''b'' ''z2'' None]\<rparr>"

definition sparseRequest :: "cidr \<Rightarrow> AllocateCidrRequest" where
  "sparseRequest vpc =
     \<lparr>vpcCidr = vpc,
      requestedSubnets =
        [requested ''a'' ''z1'' None, requested ''a'' ''z2'' None, requested ''a'' ''z3'' None,
         requested ''a'' ''z4'' None, requested ''b'' ''z3'' None, requested ''b'' ''z4'' None]\<rparr>"

definition twoTierRequest :: AllocateCidrRequest where
  "twoTierRequest =
     \<lparr>vpcCidr = Literal (ipv4 10 0 0 0) 16,
      requestedSubnets = [requested ''a'' ''z1'' None, requested ''b'' ''z1'' None]\<rparr>"

definition mixedSizeRequest :: "cidr \<Rightarrow> AllocateCidrRequest" where
  "mixedSizeRequest vpc =
     \<lparr>vpcCidr = vpc,
      requestedSubnets = [requested ''a'' ''z1'' (Some 24), requested ''a'' ''z2'' (Some 25)]\<rparr>"

definition scenarioRequest :: AllocateCidrRequest where
  "scenarioRequest =
     \<lparr>vpcCidr = Literal (ipv4 10 0 0 0) 16,
      requestedSubnets =
        [requested ''public'' ''az1'' None, requested ''public'' ''az2'' None,
         requested ''private'' ''az1'' None, requested ''private'' ''az2'' None]\<rparr>"

definition exampleVpc :: cidr where
  "exampleVpc = Literal (ipv4 10 0 0 0) 16"

definition uniformRequest :: "cidr \<Rightarrow> AllocateCidrRequest" where
  "uniformRequest vpc =
     \<lparr>vpcCidr = vpc,
      requestedSubnets = [requested ''a'' ''z1'' (Some 24), requested ''a'' ''z2'' (Some 24)]\<rparr>"

section \<open>The construct tree and the pool operations\<close>

lemma newConstruct_cases:
  "newConstruct scope ident w =
     (if scope @ [ident] \<in> set (constructs w) then (Inl DuplicateConstruct, w)
      else (Inr (scope @ [ident]), w\<lparr>constructs := constructs w @ [scope @ [ident]]\<rparr>))"
  by (simp add: newConstruct_def Let_def)

lemma base_addCidrToPool_pool:
  "IpamPoolBase_addCidrToPool ident options this w = (r, this', w') \<Longrightarrow> this' = this"
  by (auto simp: IpamPoolBase_addCidrToPool_def newConstruct_cases split: if_splits)

lemma addCidrToPool_distinct:
  assumes "distinct (provisionedCidrs this)"
    and "addCidrToPool ident options this w = (r, this', w')"
  shows "distinct (provisionedCidrs this')"
  using assms
  by (auto simp: addCidrToPool_def Let_def split: if_splits dest: base_addCidrToPool_pool)

lemma addCidrToPool_duplicate:
  assumes "allowInline options \<noteq> Some False" and "inline (configuration options)"
    and "resolved_cidr (bind (configuration options) this) = Some c" and "c \<noteq> []"
    and "c \<in> set (provisionedCidrs this)"
  shows "addCidrToPool ident options this w = (Inl DuplicateCidr, this, w)"
  using assms by (cases "allowInline options") (auto simp: addCidrToPool_def truthyString_def)

lemma addProvisionedCidrs_distinct:
  "distinct (provisionedCidrs this) \<Longrightarrow> addProvisionedCidrs idx xs this w = (r, this', w')
     \<Longrightarrow> distinct (provisionedCidrs this')"
proof (induction xs arbitrary: idx this w)
  case Nil
  then show ?case by simp
next
  case (Cons x xs)
  let ?step = "addCidrToPool (''provisioned-'' @ padStart 3 (CHR ''0'') (toString idx))
                 \<lparr>allowInline = Some True, configuration = IpamPoolCidrConfiguration_cidr x\<rparr> this w"
  obtain r1 this1 w1 where step: "?step = (r1, this1, w1)"
    by (cases ?step) auto
  have d1: "distinct (provisionedCidrs this1)"
    using addCidrToPool_distinct [OF Cons.prems(1) step] .
  show ?case
  proof (cases r1)
    case (Inl e)
    with Cons.prems(2) step have "this' = this1" by simp
    with d1 show ?thesis by simp
  next
    case (Inr u)
    with Cons.prems(2) step have "addProvisionedCidrs (Suc idx) xs this1 w1 = (r, this', w')"
      by simp
    from Cons.IH [OF d1 this] show ?thesis .
  qed
qed

lemma IpamPool_new_distinct:
  assumes "IpamPool_new scope ident props w = (Inr pool, w')"
  shows "distinct (provisionedCidrs pool)"
proof -
  from assms show ?thesis
    apply (simp add: IpamPool_new_def newConstruct_cases Let_def split: if_splits prod.splits sum.splits)
    apply (erule addProvisionedCidrs_distinct [rotated])
    apply simp
    done
qed

lemma base_addChildPool_frame:
  "IpamPoolBase_addChildPool ident options this w = (r, this', w') \<Longrightarrow> this' = this"
  by (auto simp: IpamPoolBase_addChildPool_def split: prod.splits sum.splits)

lemma base_addChildPool_distinct:
  "IpamPoolBase_addChildPool ident options this w = (Inr child, this', w')
     \<Longrightarrow> distinct (provisionedCidrs child)"
  by (auto simp: IpamPoolBase_addChildPool_def split: prod.splits sum.splits
           dest: IpamPool_new_distinct)

lemma addChildPool_frame:
  "addChildPool ident options this w = (r, this', w') \<Longrightarrow> this' = this"
  by (auto simp: addChildPool_def Let_def split: if_splits dest: base_addChildPool_frame)

lemma addChildPool_distinct:
  "addChildPool ident options this w = (Inr child, this', w') \<Longrightarrow> distinct (provisionedCidrs child)"
  by (auto simp: addChildPool_def Let_def split: if_splits dest: base_addChildPool_distinct)

lemma allocateCidrFromPool_pool:
  "IpamPoolBase_allocateCidrFromPool ident options this w = (r, this', w') \<Longrightarrow> this' = this"
  by (auto simp: IpamPoolBase_allocateCidrFromPool_def newConstruct_cases Let_def split: if_splits)

lemma addTagRestriction_cidrs:
  "addTagRestriction key val this w = (r, this', w') \<Longrightarrow> provisionedCidrs this' = provisionedCidrs this"
  by (auto simp: addTagRestriction_def split: if_splits)

section \<open>Distinct values and the feasible prefix\<close>

lemma fromSet_fold_set:
  "set (fold (\<lambda>x acc. if x \<in> set acc then acc else acc @ [x]) xs acc) = set acc \<union> set xs"
  by (induction xs arbitrary: acc) auto

lemma fromSet_fold_distinct:
  "distinct acc \<Longrightarrow> distinct (fold (\<lambda>x acc. if x \<in> set acc then acc else acc @ [x]) xs acc)"
  by (induction xs arbitrary: acc) auto

lemma set_fromSet [simp]: "set (fromSet xs) = set xs"
  by (simp add: fromSet_def fromSet_fold_set)

lemma distinct_fromSet [simp]: "distinct (fromSet xs)"
  by (simp add: fromSet_def fromSet_fold_distinct)

lemma length_fromSet: "length (fromSet xs) = card (set xs)"
  using distinct_card [OF distinct_fromSet, of xs] by simp

lemma fromSet_two:
  assumes "a \<in> set xs" and "b \<in> set xs" and "a \<noteq> b"
  shows "1 < length (fromSet xs)"
proof -
  have "card {a, b} \<le> card (set xs)"
    using assms by (intro card_mono) auto
  with assms(3) show ?thesis by (simp add: length_fromSet)
qed

lemma fromSet_same:
  assumes "\<forall>x\<in>set xs. x = m"
  shows "length (fromSet xs) \<le> 1"
proof -
  have "set xs \<subseteq> {m}" using assms by auto
  then have "card (set xs) \<le> card {m}" by (intro card_mono) auto
  then show ?thesis by (simp add: length_fromSet)
qed

lemma splitBits_fits: "n \<le> 2 ^ splitBits n"
proof (induction n rule: splitBits.induct)
  case (1 n)
  show ?case
  proof (cases "n \<le> 1")
    case True
    then show ?thesis by (simp add: splitBits.simps)
  next
    case False
    with 1 have "(n + 1) div 2 \<le> 2 ^ splitBits ((n + 1) div 2)" by simp
    then have "n \<le> 2 * 2 ^ splitBits ((n + 1) div 2)" by linarith
    with False show ?thesis by (simp add: splitBits.simps [of n])
  qed
qed

lemma splitBits_least: "n \<le> 2 ^ k \<Longrightarrow> splitBits n \<le> k"
proof (induction n arbitrary: k rule: splitBits.induct)
  case (1 n)
  show ?case
  proof (cases "n \<le> 1")
    case True
    then show ?thesis by (simp add: splitBits.simps)
  next
    case False
    with "1.prems" obtain j where k: "k = Suc j"
      by (cases k) auto
    with "1.prems" have "(n + 1) div 2 \<le> 2 ^ j" by simp
    with 1 False have "splitBits ((n + 1) div 2) \<le> j" by simp
    with False k show ?thesis by (simp add: splitBits.simps [of n])
  qed
qed

lemma getBiggestMask_spec:
  "getBiggestMask parentPrefix childCount = Inr p \<longleftrightarrow>
     parentPrefix \<le> p \<and> p \<le> 32 \<and> childCount \<le> 2 ^ (p - parentPrefix) \<and>
     (\<forall>q. parentPrefix \<le> q \<and> childCount \<le> 2 ^ (q - parentPrefix) \<longrightarrow> p \<le> q)"
proof
  assume "getBiggestMask parentPrefix childCount = Inr p"
  then have p: "p = parentPrefix + splitBits childCount" and le: "p \<le> 32"
    by (auto simp: getBiggestMask_def Let_def split: if_splits)
  show "parentPrefix \<le> p \<and> p \<le> 32 \<and> childCount \<le> 2 ^ (p - parentPrefix) \<and>
     (\<forall>q. parentPrefix \<le> q \<and> childCount \<le> 2 ^ (q - parentPrefix) \<longrightarrow> p \<le> q)"
    using le splitBits_fits [of childCount] splitBits_least [of childCount]
    by (auto simp: p) (metis le_add_diff_inverse nat_add_left_cancel_le)
next
  assume r: "parentPrefix \<le> p \<and> p \<le> 32 \<and> childCount \<le> 2 ^ (p - parentPrefix) \<and>
     (\<forall>q. parentPrefix \<le> q \<and> childCount \<le> 2 ^ (q - parentPrefix) \<longrightarrow> p \<le> q)"
  then have "splitBits childCount \<le> p - parentPrefix"
    by (intro splitBits_least) simp
  moreover have "p \<le> parentPrefix + splitBits childCount"
    using r splitBits_fits [of childCount] by auto
  ultimately have "p = parentPrefix + splitBits childCount"
    using r by linarith
  with r show "getBiggestMask parentPrefix childCount = Inr p"
    by (simp add: getBiggestMask_def)
qed

lemma splitBits_values [simp]:
  "splitBits 0 = 0" "splitBits 1 = 0" "splitBits 2 = 1" "splitBits 3 = 2" "splitBits 4 = 2"
  by (simp_all add: splitBits.simps)

lemmas tier_defs = allocateSubnetsCidr_def allocateSubnetsCidrNoIpam_def
  allocateSubnetsCidrIpam_def noIpamTier_def ipamTier_def tiersOf_def azsOf_def tierSubnetsOf_def
  fromSet_def requested_def cidrTiers_def ipamTiers_def getBiggestMask_def childBlocks_def
  at_def first_def allocatedFrom_def lookupNetwork_def truthyNumber_def

lemma splitBits_Suc [simp]:
  "splitBits (Suc 0) = 0" "splitBits (Suc (Suc 0)) = 1" "splitBits (Suc (Suc (Suc (Suc 0)))) = 2"
  using splitBits_values by (simp_all add: numeral_eq_Suc)

lemma upt_4: "[0..<4] = [0, 1, 2, 3]" "[0..<2] = [0, 1]" 
  by (simp_all add: upt_rec)

text \<open>The allocators of the examples are the ones the constructor builds.\<close>

lemma TieredSubnets_new_examples:
  "TieredSubnets_new
     \<lparr>cidrDetails = Some \<lparr>details_cidr = Literal (ipv4 10 0 0 0) 16, details_netmask = 16\<rparr>,
      ipamDetails = None\<rparr> tm = Inr (cidrTiers tm)"
  "TieredSubnets_new
     \<lparr>cidrDetails = None,
      ipamDetails = Some \<lparr>details_ipamPool = Some (examplePool None None None),
                             details_ipamNetmask = 16\<rparr>\<rparr> tm = Inr (ipamTiers tm)"
  "TieredSubnets_new \<lparr>cidrDetails = None, ipamDetails = None\<rparr> tm = Inl MissingCidrDetails"
  by (simp_all add: TieredSubnets_new_def cidrTiers_def ipamTiers_def examplePool_def)

text \<open>
  The scenario of the spec: \<open>10.0.0.0/16\<close>, the tiers \<open>public\<close> and \<open>private\<close>, the zones
  \<open>az1\<close> and \<open>az2\<close>, no explicit masks. The tiers are the two \<open>/17\<close> halves and the
  subnets are \<open>10.0.0.0/18\<close>, \<open>10.0.64.0/18\<close>, \<open>10.0.128.0/18\<close> and \<open>10.0.192.0/18\<close>.
\<close>

lemma spec_scenario:
  "divideCidr (vpcCidr scenarioRequest) (length (tiersOf scenarioRequest)) None =
     Inr [Literal (ipv4 10 0 0 0) 17, Literal (ipv4 10 0 128 0) 17]"
  "allocateSubnetsCidr (cidrTiers None) scenarioRequest =
     Inr \<lparr>allocatedSubnets =
            [Some (Literal (ipv4 10 0 0 0) 18), Some (Literal (ipv4 10 0 64 0) 18),
             Some (Literal (ipv4 10 0 128 0) 18), Some (Literal (ipv4 10 0 192 0) 18)]\<rparr>"
  by (simp_all add: tier_defs scenarioRequest_def ipv4_def upt_4 enumerate_eq_zip Let_def)

section \<open>The loop over the tiers\<close>

lemma mixedSizes_length:
  assumes "mixedSizes input tier"
  shows "1 < length (fromSet (map (\<lambda>x. cidrMask (subnet_configuration x)) (tierSubnetsOf input tier)))"
proof -
  from assms obtain x y where
    x: "x \<in> set (tierSubnetsOf input tier)" and y: "y \<in> set (tierSubnetsOf input tier)"
    and ne: "cidrMask (subnet_configuration x) \<noteq> cidrMask (subnet_configuration y)"
    unfolding mixedSizes_def by blast
  show ?thesis
  proof (rule fromSet_two [OF _ _ ne])
    show "cidrMask (subnet_configuration x)
            \<in> set (map (\<lambda>x. cidrMask (subnet_configuration x)) (tierSubnetsOf input tier))"
      using x by simp
    show "cidrMask (subnet_configuration y)
            \<in> set (map (\<lambda>x. cidrMask (subnet_configuration x)) (tierSubnetsOf input tier))"
      using y by simp
  qed
qed

lemma uniformSizes_length:
  assumes "uniformSizes input tier"
  shows "length (fromSet (map (\<lambda>x. cidrMask (subnet_configuration x)) (tierSubnetsOf input tier))) \<le> 1"
proof (rule fromSet_same [where m = "case tierSubnetsOf input tier of [] \<Rightarrow> None | x # _ \<Rightarrow> cidrMask (subnet_configuration x)"], rule ballI)
  fix m
  assume "m \<in> set (map (\<lambda>x. cidrMask (subnet_configuration x)) (tierSubnetsOf input tier))"
  then obtain y where y: "y \<in> set (tierSubnetsOf input tier)" and m: "m = cidrMask (subnet_configuration y)"
    by auto
  then obtain x xs where c: "tierSubnetsOf input tier = x # xs"
    by (cases "tierSubnetsOf input tier") auto
  then have "x \<in> set (tierSubnetsOf input tier)" by simp
  with assms y have "cidrMask (subnet_configuration y) = cidrMask (subnet_configuration x)"
    unfolding uniformSizes_def by blast
  with m c show "m = (case tierSubnetsOf input tier of [] \<Rightarrow> None | x # _ \<Rightarrow> cidrMask (subnet_configuration x))"
    by simp
qed

lemma mixedSizes_tier: "mixedSizes input tier \<Longrightarrow> tier \<in> set (tiersOf input)"
  by (auto simp: mixedSizes_def tierSubnetsOf_def tiersOf_def)

lemma getBiggestMask_error: "getBiggestMask p n = Inl e \<Longrightarrow> e = AddressSpaceExhausted"
  by (simp add: getBiggestMask_def Let_def split: if_splits)

lemma divideCidr_error:
  assumes "divideCidr c n m = Inl e"
  shows "e \<in> {AddressSpaceExhausted, PrefixTooWide, UnresolvedCidr}"
proof (cases c)
  case (Literal base p)
  show ?thesis
  proof (cases "getBiggestMask p n")
    case (Inl e')
    with Literal assms getBiggestMask_error [OF Inl] show ?thesis by simp
  next
    case (Inr biggest)
    with Literal assms show ?thesis
      by (cases m) (simp_all split: if_splits)
  qed
qed (use assms in simp_all)

lemma noIpamTier_mixed:
  "mixedSizes input tier \<Longrightarrow> noIpamTier input tierNetworks tIdx tier = Inl InconsistentSubnetSize"
  using mixedSizes_length [of input tier] by (simp add: noIpamTier_def Let_def)

lemma noIpamTier_uniform:
  assumes "uniformSizes input tier"
  shows "noIpamTier input tierNetworks tIdx tier \<noteq> Inl InconsistentSubnetSize"
proof (cases "at tierNetworks tIdx")
  case None
  then show ?thesis
    using uniformSizes_length [OF assms] by (simp add: noIpamTier_def Let_def)
next
  case (Some tierNetwork)
  let ?maskBits = "fromSet (map (\<lambda>x. cidrMask (subnet_configuration x)) (tierSubnetsOf input tier))"
  show ?thesis
  proof (cases "divideCidr tierNetwork (length (azsOf input)) (first ?maskBits)")
    case (Inl e)
    from divideCidr_error [OF Inl] have "e \<noteq> InconsistentSubnetSize" by auto
    with Some Inl show ?thesis
      using uniformSizes_length [OF assms] by (simp add: noIpamTier_def Let_def)
  next
    case (Inr azNetworks)
    with Some show ?thesis
      using uniformSizes_length [OF assms] by (simp add: noIpamTier_def Let_def)
  qed
qed

lemma ipamTier_mixed:
  "mixedSizes input tier \<Longrightarrow> getBiggestMask eff (length (tierSubnetsOf input tier)) = Inr b
     \<Longrightarrow> ipamTier input eff tierNetworks tIdx tier = Inl InconsistentSubnetSize"
  using mixedSizes_length [of input tier] by (simp add: ipamTier_def Let_def)

lemma ipamTier_mixed_fails:
  "mixedSizes input tier \<Longrightarrow> isl (ipamTier input eff tierNetworks tIdx tier)"
  using mixedSizes_length [of input tier]
  by (cases "getBiggestMask eff (length (tierSubnetsOf input tier))")
     (simp_all add: ipamTier_def Let_def)

lemma ipamTier_uniform:
  assumes "uniformSizes input tier"
  shows "ipamTier input eff tierNetworks tIdx tier \<noteq> Inl InconsistentSubnetSize"
proof (cases "getBiggestMask eff (length (tierSubnetsOf input tier))")
  case (Inl e)
  with getBiggestMask_error [OF Inl] show ?thesis
    by (simp add: ipamTier_def Let_def)
next
  case (Inr b)
  then show ?thesis
    using uniformSizes_length [OF assms] by (simp add: ipamTier_def Let_def)
qed

lemma forEachTier_fails:
  "tier \<in> set tiers \<Longrightarrow> (\<And>i. isl (body i tier)) \<Longrightarrow> isl (forEachTier body tIdx tiers)"
proof (induction tiers arbitrary: tIdx)
  case Nil
  then show ?case by simp
next
  case (Cons t ts)
  show ?case
  proof (cases "t = tier")
    case True
    with Cons.prems(2) [of tIdx] show ?thesis
      by (auto split: sum.splits)
  next
    case False
    with Cons.prems have "tier \<in> set ts" by simp
    from Cons.IH [OF this Cons.prems(2), of "Suc tIdx"] show ?thesis
      by (auto split: sum.splits)
  qed
qed

lemma forEachTier_error:
  "forEachTier body tIdx tiers = Inl e \<Longrightarrow> \<exists>i. \<exists>tier\<in>set tiers. body i tier = Inl e"
proof (induction tiers arbitrary: tIdx)
  case Nil
  then show ?case by simp
next
  case (Cons t ts)
  show ?case
  proof (cases "body tIdx t")
    case (Inl e')
    with Cons.prems have "body tIdx t = Inl e" by simp
    then show ?thesis by auto
  next
    case (Inr azMap)
    with Cons.prems have "forEachTier body (Suc tIdx) ts = Inl e"
      by (auto split: sum.splits)
    from Cons.IH [OF this] show ?thesis by auto
  qed
qed

lemma forEachTier_reached:
  "forEachTier body tIdx pre = Inr passed \<Longrightarrow> body (tIdx + length pre) tier = Inl e
     \<Longrightarrow> forEachTier body tIdx (pre @ tier # post) = Inl e"
proof (induction pre arbitrary: tIdx passed)
  case Nil
  then show ?case by simp
next
  case (Cons t ts)
  from Cons.prems(1) obtain azMap rest where
    t: "body tIdx t = Inr azMap" and rest: "forEachTier body (Suc tIdx) ts = Inr rest"
    by (auto split: sum.splits)
  from Cons.prems(2) have "body (Suc tIdx + length ts) tier = Inl e" by simp
  from Cons.IH [OF rest this] t show ?case by simp
qed

lemma noIpam_mixed_fails:
  assumes "mixedSizes input tier"
  shows "isl (allocateSubnetsCidrNoIpam this input)"
proof (cases "divideCidr (vpcCidr input) (length (tiersOf input)) (tierMask this)")
  case (Inl e)
  then show ?thesis by (simp add: allocateSubnetsCidrNoIpam_def)
next
  case (Inr tierNetworks)
  have "isl (forEachTier (noIpamTier input tierNetworks) 0 (tiersOf input))"
    using mixedSizes_tier [OF assms] by (rule forEachTier_fails) (simp add: noIpamTier_mixed assms)
  with Inr show ?thesis
    by (cases "forEachTier (noIpamTier input tierNetworks) 0 (tiersOf input)")
       (simp_all add: allocateSubnetsCidrNoIpam_def)
qed

lemma allocateSubnetsCidrIpam_cases:
  obtains
    (early) e where "allocateSubnetsCidrIpam this input = Inl e"
      and "e \<in> {MissingNetmask, AddressSpaceExhausted, TierMaskTooNarrow}"
  | (loop) eff tns where
      "allocateSubnetsCidrIpam this input =
         (case forEachTier (ipamTier input eff tns) 0 (tiersOf input) of
            Inl e \<Rightarrow> Inl e
          | Inr networkMap \<Rightarrow> Inr (allocatedFrom networkMap input))"
proof (cases "ipv4NetmaskLength (ipamOptions this)")
  case None
  then have "allocateSubnetsCidrIpam this input = Inl MissingNetmask"
    by (simp add: allocateSubnetsCidrIpam_def)
  then show ?thesis by (rule early) simp
next
  case (Some n)
  show ?thesis
  proof (cases "getBiggestMask n (length (tiersOf input))")
    case (Inl e)
    with Some getBiggestMask_error [OF Inl]
    have "allocateSubnetsCidrIpam this input = Inl AddressSpaceExhausted"
      by (simp add: allocateSubnetsCidrIpam_def)
    then show ?thesis by (rule early) simp
  next
    case (Inr b)
    show ?thesis
    proof (cases "truthyNumber (tierMask this) \<and> b < the (tierMask this)")
      case True
      with Some Inr have "allocateSubnetsCidrIpam this input = Inl TierMaskTooNarrow"
        by (simp add: allocateSubnetsCidrIpam_def)
      then show ?thesis by (rule early) simp
    next
      case False
      let ?eff = "case tierMask this of None \<Rightarrow> b | Some m \<Rightarrow> m"
      from False have c: "(truthyNumber (tierMask this) \<and> b < the (tierMask this)) = False"
        by simp
      from Some Inr have
        "allocateSubnetsCidrIpam this input =
           (case forEachTier
                   (ipamTier input ?eff (FnCidr (vpcCidr input) (length (tiersOf input)) (32 - int ?eff)))
                   0 (tiersOf input) of
              Inl e \<Rightarrow> Inl e
            | Inr networkMap \<Rightarrow> Inr (allocatedFrom networkMap input))"
        by (simp add: allocateSubnetsCidrIpam_def Let_def c)
      then show ?thesis by (rule loop)
    qed
  qed
qed

lemma ipam_mixed_fails:
  assumes "mixedSizes input tier"
  shows "isl (allocateSubnetsCidrIpam this input)"
proof (cases this input rule: allocateSubnetsCidrIpam_cases)
  case (early e)
  then show ?thesis by simp
next
  case (loop eff tns)
  have "isl (forEachTier (ipamTier input eff tns) 0 (tiersOf input))"
    using mixedSizes_tier [OF assms] by (rule forEachTier_fails) (simp add: ipamTier_mixed_fails assms)
  with loop show ?thesis
    by (cases "forEachTier (ipamTier input eff tns) 0 (tiersOf input)") simp_all
qed

lemma noIpam_uniform:
  assumes "\<forall>tier\<in>set (tiersOf input). uniformSizes input tier"
  shows "allocateSubnetsCidrNoIpam this input \<noteq> Inl InconsistentSubnetSize"
proof
  assume f: "allocateSubnetsCidrNoIpam this input = Inl InconsistentSubnetSize"
  show False
  proof (cases "divideCidr (vpcCidr input) (length (tiersOf input)) (tierMask this)")
    case (Inl e)
    with f divideCidr_error [OF Inl] show False
      by (simp add: allocateSubnetsCidrNoIpam_def)
  next
    case (Inr tierNetworks)
    with f have "forEachTier (noIpamTier input tierNetworks) 0 (tiersOf input) = Inl InconsistentSubnetSize"
      by (cases "forEachTier (noIpamTier input tierNetworks) 0 (tiersOf input)")
         (simp_all add: allocateSubnetsCidrNoIpam_def)
    from forEachTier_error [OF this] obtain i tier where
      "tier \<in> set (tiersOf input)" "noIpamTier input tierNetworks i tier = Inl InconsistentSubnetSize"
      by blast
    with assms noIpamTier_uniform [of input tier tierNetworks i] show False
      by simp
  qed
qed

lemma ipam_uniform:
  assumes "\<forall>tier\<in>set (tiersOf input). uniformSizes input tier"
  shows "allocateSubnetsCidrIpam this input \<noteq> Inl InconsistentSubnetSize"
proof (cases this input rule: allocateSubnetsCidrIpam_cases)
  case (early e)
  then show ?thesis by auto
next
  case (loop eff tns)
  show ?thesis
  proof (cases "forEachTier (ipamTier input eff tns) 0 (tiersOf input)")
    case (Inl e)
    from forEachTier_error [OF Inl] obtain i tier where
      "tier \<in> set (tiersOf input)" "ipamTier input eff tns i tier = Inl e"
      by blast
    with assms ipamTier_uniform [of input tier eff tns i] have "e \<noteq> InconsistentSubnetSize"
      by auto
    with loop Inl show ?thesis by simp
  next
    case (Inr networkMap)
    with loop show ?thesis by simp
  qed
qed

lemma noIpam_mixed_reached:
  assumes "divideCidr (vpcCidr input) (length (tiersOf input)) (tierMask this) = Inr tierNetworks"
    and "tiersOf input = pre @ tier # post"
    and "forEachTier (noIpamTier input tierNetworks) 0 pre = Inr passed"
    and "mixedSizes input tier"
  shows "allocateSubnetsCidrNoIpam this input = Inl InconsistentSubnetSize"
proof -
  have "forEachTier (noIpamTier input tierNetworks) 0 (pre @ tier # post) = Inl InconsistentSubnetSize"
    using assms(3) by (rule forEachTier_reached) (simp add: noIpamTier_mixed assms(4))
  with assms(1,2) show ?thesis
    by (simp add: allocateSubnetsCidrNoIpam_def)
qed

lemma ipam_mixed_reached:
  assumes "ipv4NetmaskLength (ipamOptions this) = Some n"
    and "getBiggestMask n (length (tiersOf input)) = Inr b"
    and "\<not> (truthyNumber (tierMask this) \<and> b < the (tierMask this))"
    and "eff = (case tierMask this of None \<Rightarrow> b | Some m \<Rightarrow> m)"
    and "tiersOf input = pre @ tier # post"
    and "forEachTier (ipamTier input eff (FnCidr (vpcCidr input) (length (tiersOf input)) (32 - int eff))) 0 pre
           = Inr passed"
    and "getBiggestMask eff (length (tierSubnetsOf input tier)) = Inr b'"
    and "mixedSizes input tier"
  shows "allocateSubnetsCidrIpam this input = Inl InconsistentSubnetSize"
proof -
  have "forEachTier (ipamTier input eff (FnCidr (vpcCidr input) (length (tiersOf input)) (32 - int eff))) 0
          (pre @ tier # post) = Inl InconsistentSubnetSize"
    using assms(6) by (rule forEachTier_reached) (simp add: ipamTier_mixed [OF assms(8,7)])
  with assms(1-5) show ?thesis
    by (simp add: allocateSubnetsCidrIpam_def Let_def)
qed

section \<open>Tiered subnets: the claims\<close>

text \<open>
  C1: every tier's block is to be divided by the tier's own number of subnets, and every
  pair of a tier and a zone is to get a block of that division. The concrete-CIDR path
  divides by the number of zones of the whole request instead. For tier \<open>a\<close> in four zones
  and tier \<open>b\<close> in two, over \<open>10.0.0.0/16\<close>, the two subnets of \<open>b\<close> are \<open>/19\<close> blocks, a
  quarter of the tier each, where the tier's own count gives the two halves
  \<open>10.0.128.0/18\<close> and \<open>10.0.192.0/18\<close>. The pool path asks for \<open>4\<close> blocks in tier \<open>a\<close>
  and for \<open>2\<close> in tier \<open>b\<close>, and selects by the position of the zone among the zones of the
  whole request: when the two zones of \<open>b\<close> are the third and the fourth of the request, it
  selects the blocks \<open>2\<close> and \<open>3\<close> of a division into two.
\<close>

theorem noIpam_divides_by_zones_of_request:
  "allocateSubnetsCidr (cidrTiers None) (unevenRequest (Literal (ipv4 10 0 0 0) 16)) =
     Inr \<lparr>allocatedSubnets =
            [Some (Literal (ipv4 10 0 0 0) 19), Some (Literal (ipv4 10 0 32 0) 19),
             Some (Literal (ipv4 10 0 64 0) 19), Some (Literal (ipv4 10 0 96 0) 19),
             Some (Literal (ipv4 10 0 128 0) 19), Some (Literal (ipv4 10 0 160 0) 19)]\<rparr> \<and>
   divideCidr (Literal (ipv4 10 0 128 0) 17)
       (length (tierSubnetsOf (unevenRequest (Literal (ipv4 10 0 0 0) 16)) ''b'')) None =
     Inr [Literal (ipv4 10 0 128 0) 18, Literal (ipv4 10 0 192 0) 18] \<and>
   allocateSubnetsCidr (ipamTiers None) (unevenRequest (Token ''vpc'')) =
     Inr \<lparr>allocatedSubnets =
            [Some (FnSelect 0 (FnCidr (FnSelect 0 (FnCidr (Token ''vpc'') 2 15)) 4 13)),
             Some (FnSelect 1 (FnCidr (FnSelect 0 (FnCidr (Token ''vpc'') 2 15)) 4 13)),
             Some (FnSelect 2 (FnCidr (FnSelect 0 (FnCidr (Token ''vpc'') 2 15)) 4 13)),
             Some (FnSelect 3 (FnCidr (FnSelect 0 (FnCidr (Token ''vpc'') 2 15)) 4 13)),
             Some (FnSelect 0 (FnCidr (FnSelect 1 (FnCidr (Token ''vpc'') 2 15)) 2 14)),
             Some (FnSelect 1 (FnCidr (FnSelect 1 (FnCidr (Token ''vpc'') 2 15)) 2 14))]\<rparr> \<and>
   allocateSubnetsCidr (ipamTiers None) (sparseRequest (Token ''vpc'')) =
     Inr \<lparr>allocatedSubnets =
            [Some (FnSelect 0 (FnCidr (FnSelect 0 (FnCidr (Token ''vpc'') 2 15)) 4 13)),
             Some (FnSelect 1 (FnCidr (FnSelect 0 (FnCidr (Token ''vpc'') 2 15)) 4 13)),
             Some (FnSelect 2 (FnCidr (FnSelect 0 (FnCidr (Token ''vpc'') 2 15)) 4 13)),
             Some (FnSelect 3 (FnCidr (FnSelect 0 (FnCidr (Token ''vpc'') 2 15)) 4 13)),
             Some (FnSelect 2 (FnCidr (FnSelect 1 (FnCidr (Token ''vpc'') 2 15)) 2 14)),
             Some (FnSelect 3 (FnCidr (FnSelect 1 (FnCidr (Token ''vpc'') 2 15)) 2 14))]\<rparr>"
  by (simp add: tier_defs unevenRequest_def sparseRequest_def ipv4_def upt_4 enumerate_eq_zip
        Let_def)

text \<open>
  The comparison of the pool path, for every request: a tier mask above the feasible prefix
  of the netmask and the number of tiers ends the allocation with the tier-mask error.
\<close>

lemma ipam_tierMask_rejected:
  assumes "ipv4NetmaskLength (ipamOptions this) = Some n"
    and "getBiggestMask n (length (tiersOf input)) = Inr b"
    and "tierMask this = Some m" and "b < m"
  shows "allocateSubnetsCidrIpam this input = Inl TierMaskTooNarrow"
  using assms by (simp add: allocateSubnetsCidrIpam_def truthyNumber_def)

text \<open>
  C5: a tier mask above the feasible prefix is to end the allocation with the tier-mask
  error in both modes. The pool path compares the mask with the feasible prefix and raises
  the error. The concrete-CIDR path has no comparison of its own: it hands the mask to
  \<open>divideCidr\<close>, whose check, as the spec describes the partition, refuses a mask below the
  feasible prefix only. Two tiers in \<open>10.0.0.0/16\<close> have the feasible prefix \<open>17\<close>; with the
  tier mask \<open>20\<close> the pool path raises the error, and the concrete-CIDR path returns the
  first two \<open>/20\<close> blocks.
\<close>

theorem tierMask_unchecked_in_cidr_mode:
  "getBiggestMask 16 (length (tiersOf twoTierRequest)) = Inr 17 \<and>
   tierMask (ipamTiers (Some 20)) = Some 20 \<and>
   allocateSubnetsCidr (ipamTiers (Some 20)) twoTierRequest = Inl TierMaskTooNarrow \<and>
   tierMask (cidrTiers (Some 20)) = Some 20 \<and>
   allocateSubnetsCidr (cidrTiers (Some 20)) twoTierRequest =
     Inr \<lparr>allocatedSubnets =
            [Some (Literal (ipv4 10 0 0 0) 20), Some (Literal (ipv4 10 0 16 0) 20)]\<rparr>"
  by (simp add: tier_defs twoTierRequest_def ipv4_def upt_4 enumerate_eq_zip Let_def)

text \<open>
  C6: when the subnets requested for a tier carry two different explicit masks, the
  allocation fails in both modes; the body of the loop raises the inconsistent-size error
  for that tier, and that error is the result of the allocation when the checks before it
  and the tiers before it have passed. A tier whose subnets all carry the same mask, or
  none, passes the check: its body never raises the error, and a request of such tiers only
  never fails with it.
\<close>

theorem tier_subnet_sizes:
  "(mixedSizes input tier \<longrightarrow>
      isl (allocateSubnetsCidrNoIpam noIpam input) \<and>
      isl (allocateSubnetsCidrIpam ipam input) \<and>
      noIpamTier input tierNetworks tIdx tier = Inl InconsistentSubnetSize \<and>
      (getBiggestMask eff (length (tierSubnetsOf input tier)) = Inr b'
         \<longrightarrow> ipamTier input eff tns tIdx tier = Inl InconsistentSubnetSize)) \<and>
   (mixedSizes input tier \<and> tiersOf input = pre @ tier # post \<and>
      divideCidr (vpcCidr input) (length (tiersOf input)) (tierMask noIpam) = Inr tierNetworks \<and>
      forEachTier (noIpamTier input tierNetworks) 0 pre = Inr passed
      \<longrightarrow> allocateSubnetsCidrNoIpam noIpam input = Inl InconsistentSubnetSize) \<and>
   (mixedSizes input tier \<and> tiersOf input = pre @ tier # post \<and>
      ipv4NetmaskLength (ipamOptions ipam) = Some n \<and>
      getBiggestMask n (length (tiersOf input)) = Inr b \<and>
      \<not> (truthyNumber (tierMask ipam) \<and> b < the (tierMask ipam)) \<and>
      eff = (case tierMask ipam of None \<Rightarrow> b | Some m \<Rightarrow> m) \<and>
      tns = FnCidr (vpcCidr input) (length (tiersOf input)) (32 - int eff) \<and>
      forEachTier (ipamTier input eff tns) 0 pre = Inr passed' \<and>
      getBiggestMask eff (length (tierSubnetsOf input tier)) = Inr b'
      \<longrightarrow> allocateSubnetsCidrIpam ipam input = Inl InconsistentSubnetSize) \<and>
   (uniformSizes input tier \<longrightarrow>
      noIpamTier input tierNetworks tIdx tier \<noteq> Inl InconsistentSubnetSize \<and>
      ipamTier input eff tns tIdx tier \<noteq> Inl InconsistentSubnetSize) \<and>
   ((\<forall>t\<in>set (tiersOf input). uniformSizes input t) \<longrightarrow>
      allocateSubnetsCidrNoIpam noIpam input \<noteq> Inl InconsistentSubnetSize \<and>
      allocateSubnetsCidrIpam ipam input \<noteq> Inl InconsistentSubnetSize)"
proof (intro conjI impI)
  assume m: "mixedSizes input tier"
  show "isl (allocateSubnetsCidrNoIpam noIpam input)" using m by (rule noIpam_mixed_fails)
  show "isl (allocateSubnetsCidrIpam ipam input)" using m by (rule ipam_mixed_fails)
  show "noIpamTier input tierNetworks tIdx tier = Inl InconsistentSubnetSize"
    using m by (rule noIpamTier_mixed)
  show "ipamTier input eff tns tIdx tier = Inl InconsistentSubnetSize"
    if "getBiggestMask eff (length (tierSubnetsOf input tier)) = Inr b'"
    using m that by (rule ipamTier_mixed)
next
  assume "mixedSizes input tier \<and> tiersOf input = pre @ tier # post \<and>
      divideCidr (vpcCidr input) (length (tiersOf input)) (tierMask noIpam) = Inr tierNetworks \<and>
      forEachTier (noIpamTier input tierNetworks) 0 pre = Inr passed"
  then show "allocateSubnetsCidrNoIpam noIpam input = Inl InconsistentSubnetSize"
    using noIpam_mixed_reached [of input noIpam tierNetworks pre tier post passed] by blast
next
  assume "mixedSizes input tier \<and> tiersOf input = pre @ tier # post \<and>
      ipv4NetmaskLength (ipamOptions ipam) = Some n \<and>
      getBiggestMask n (length (tiersOf input)) = Inr b \<and>
      \<not> (truthyNumber (tierMask ipam) \<and> b < the (tierMask ipam)) \<and>
      eff = (case tierMask ipam of None \<Rightarrow> b | Some m \<Rightarrow> m) \<and>
      tns = FnCidr (vpcCidr input) (length (tiersOf input)) (32 - int eff) \<and>
      forEachTier (ipamTier input eff tns) 0 pre = Inr passed' \<and>
      getBiggestMask eff (length (tierSubnetsOf input tier)) = Inr b'"
  then show "allocateSubnetsCidrIpam ipam input = Inl InconsistentSubnetSize"
    using ipam_mixed_reached [of ipam n input b eff pre tier post passed' b'] by blast
next
  assume u: "uniformSizes input tier"
  show "noIpamTier input tierNetworks tIdx tier \<noteq> Inl InconsistentSubnetSize"
    using u by (rule noIpamTier_uniform)
  show "ipamTier input eff tns tIdx tier \<noteq> Inl InconsistentSubnetSize"
    using u by (rule ipamTier_uniform)
next
  assume a: "\<forall>t\<in>set (tiersOf input). uniformSizes input t"
  show "allocateSubnetsCidrNoIpam noIpam input \<noteq> Inl InconsistentSubnetSize"
    using a by (rule noIpam_uniform)
  show "allocateSubnetsCidrIpam ipam input \<noteq> Inl InconsistentSubnetSize"
    using a by (rule ipam_uniform)
qed

theorem tier_subnet_sizes_witness:
  "mixedSizes (mixedSizeRequest exampleVpc) ''a'' \<and>
   tiersOf (mixedSizeRequest exampleVpc) = [] @ ''a'' # [] \<and>
   divideCidr (vpcCidr (mixedSizeRequest exampleVpc))
      (length (tiersOf (mixedSizeRequest exampleVpc))) (tierMask (cidrTiers None)) = Inr [exampleVpc] \<and>
   forEachTier (noIpamTier (mixedSizeRequest exampleVpc) [exampleVpc]) 0 [] = Inr [] \<and>
   ipv4NetmaskLength (ipamOptions (ipamTiers None)) = Some 16 \<and>
   getBiggestMask 16 (length (tiersOf (mixedSizeRequest exampleVpc))) = Inr 16 \<and>
   \<not> (truthyNumber (tierMask (ipamTiers None)) \<and> 16 < the (tierMask (ipamTiers None))) \<and>
   forEachTier (ipamTier (mixedSizeRequest exampleVpc) 16 (FnCidr exampleVpc 1 16)) 0 [] = Inr [] \<and>
   getBiggestMask 16 (length (tierSubnetsOf (mixedSizeRequest exampleVpc) ''a'')) = Inr 17 \<and>
   noIpamTier (mixedSizeRequest exampleVpc) [exampleVpc] 0 ''a'' = Inl InconsistentSubnetSize \<and>
   ipamTier (mixedSizeRequest exampleVpc) 16 (FnCidr exampleVpc 1 16) 0 ''a'' = Inl InconsistentSubnetSize \<and>
   allocateSubnetsCidrNoIpam (cidrTiers None) (mixedSizeRequest exampleVpc) = Inl InconsistentSubnetSize \<and>
   allocateSubnetsCidrIpam (ipamTiers None) (mixedSizeRequest exampleVpc) = Inl InconsistentSubnetSize \<and>
   uniformSizes (uniformRequest exampleVpc) ''a'' \<and>
   tiersOf (uniformRequest exampleVpc) = [''a''] \<and>
   noIpamTier (uniformRequest exampleVpc) [exampleVpc] 0 ''a'' \<noteq> Inl InconsistentSubnetSize \<and>
   ipamTier (uniformRequest exampleVpc) 16 (FnCidr exampleVpc 1 16) 0 ''a'' \<noteq> Inl InconsistentSubnetSize \<and>
   allocateSubnetsCidrNoIpam (cidrTiers None) (uniformRequest exampleVpc) \<noteq> Inl InconsistentSubnetSize \<and>
   allocateSubnetsCidrIpam (ipamTiers None) (uniformRequest exampleVpc) \<noteq> Inl InconsistentSubnetSize"
proof -
  have mixed: "mixedSizes (mixedSizeRequest exampleVpc) ''a''"
    by (simp add: mixedSizes_def tierSubnetsOf_def mixedSizeRequest_def requested_def)
  have tiers: "tiersOf (mixedSizeRequest exampleVpc) = [] @ ''a'' # []"
    by (simp add: tiersOf_def fromSet_def mixedSizeRequest_def requested_def)
  have subnets: "length (tierSubnetsOf (mixedSizeRequest exampleVpc) ''a'') = 2"
    by (simp add: tierSubnetsOf_def mixedSizeRequest_def requested_def)
  have big: "getBiggestMask 16 (length (tiersOf (mixedSizeRequest exampleVpc))) = Inr 16"
    "getBiggestMask 16 (length (tierSubnetsOf (mixedSizeRequest exampleVpc) ''a'')) = Inr 17"
    by (simp_all add: tiers subnets getBiggestMask_def)
  have vpc: "vpcCidr (mixedSizeRequest exampleVpc) = exampleVpc"
    by (simp add: mixedSizeRequest_def)
  have divide: "divideCidr (vpcCidr (mixedSizeRequest exampleVpc))
      (length (tiersOf (mixedSizeRequest exampleVpc))) (tierMask (cidrTiers None)) = Inr [exampleVpc]"
  proof -
    have "divideCidr exampleVpc 1 None = Inr [exampleVpc]"
      by (simp add: exampleVpc_def getBiggestMask_def childBlocks_def)
    then show ?thesis by (simp add: tiers vpc cidrTiers_def)
  qed
  have ipam: "ipv4NetmaskLength (ipamOptions (ipamTiers None)) = Some 16"
    "\<not> (truthyNumber (tierMask (ipamTiers None)) \<and> 16 < the (tierMask (ipamTiers None)))"
    "(case tierMask (ipamTiers None) of None \<Rightarrow> 16 | Some m \<Rightarrow> m) = 16"
    by (simp_all add: ipamTiers_def truthyNumber_def)
  have tns: "FnCidr exampleVpc 1 16 =
      FnCidr (vpcCidr (mixedSizeRequest exampleVpc)) (length (tiersOf (mixedSizeRequest exampleVpc)))
        (32 - int 16)"
    by (simp add: tiers vpc)
  have uniform: "uniformSizes (uniformRequest exampleVpc) ''a''"
    by (simp add: uniformSizes_def tierSubnetsOf_def uniformRequest_def requested_def)
  have utiers: "tiersOf (uniformRequest exampleVpc) = [''a'']"
    by (simp add: tiersOf_def fromSet_def uniformRequest_def requested_def)
  have all: "\<forall>t\<in>set (tiersOf (uniformRequest exampleVpc)). uniformSizes (uniformRequest exampleVpc) t"
    by (simp add: utiers uniform)
  note m = tier_subnet_sizes [where input = "mixedSizeRequest exampleVpc" and tier = "''a''"
      and noIpam = "cidrTiers None" and ipam = "ipamTiers None" and tierNetworks = "[exampleVpc]"
      and tIdx = 0 and eff = 16 and b' = 17 and tns = "FnCidr exampleVpc 1 16" and pre = "[]"
      and post = "[]" and passed = "[]" and n = 16 and b = 16 and passed' = "[]"]
  note u = tier_subnet_sizes [where input = "uniformRequest exampleVpc" and tier = "''a''"
      and noIpam = "cidrTiers None" and ipam = "ipamTiers None" and tierNetworks = "[exampleVpc]"
      and tIdx = 0 and eff = 16 and tns = "FnCidr exampleVpc 1 16"]
  have c1: "noIpamTier (mixedSizeRequest exampleVpc) [exampleVpc] 0 ''a'' = Inl InconsistentSubnetSize"
    and c2: "ipamTier (mixedSizeRequest exampleVpc) 16 (FnCidr exampleVpc 1 16) 0 ''a'' = Inl InconsistentSubnetSize"
    using m mixed big(2) by blast+
  have c3: "allocateSubnetsCidrNoIpam (cidrTiers None) (mixedSizeRequest exampleVpc) = Inl InconsistentSubnetSize"
    using m mixed tiers divide by simp
  have c4: "allocateSubnetsCidrIpam (ipamTiers None) (mixedSizeRequest exampleVpc) = Inl InconsistentSubnetSize"
    using m mixed tiers ipam big tns by simp
  have c5: "noIpamTier (uniformRequest exampleVpc) [exampleVpc] 0 ''a'' \<noteq> Inl InconsistentSubnetSize"
    and c6: "ipamTier (uniformRequest exampleVpc) 16 (FnCidr exampleVpc 1 16) 0 ''a'' \<noteq> Inl InconsistentSubnetSize"
    and c7: "allocateSubnetsCidrNoIpam (cidrTiers None) (uniformRequest exampleVpc) \<noteq> Inl InconsistentSubnetSize"
    and c8: "allocateSubnetsCidrIpam (ipamTiers None) (uniformRequest exampleVpc) \<noteq> Inl InconsistentSubnetSize"
    using u uniform all by blast+
  show ?thesis
    using mixed tiers divide ipam(1,2) big uniform utiers c1 c2 c3 c4 c5 c6 c7 c8 by simp
qed

section \<open>Pools: the claims\<close>

lemmas pool_defs = addChildPool_def validateChildLocale_def validateNestingSupport_def
  truthyString_def examplePool_def childLocale_def emptyChildPoolOptions_def BYOIP_def
  AddressConfiguration_ipv4_def AddressConfiguration_of_def IpamPoolBase_addChildPool_def
  IpamScope_fromIpamScopeAttributes_def IpamPool_new_def newConstruct_cases emptyWorld_def

text \<open>
  C2: a child whose concrete locale differs from the concrete locale of the pool is to be
  refused. \<open>validateChildLocale\<close> compares the two locales only when the locale of the pool is
  a token, so the child \<open>us-east-1\<close> passes the check of a pool in \<open>us-west-2\<close>: on a pool
  that may nest, the child is created with its own locale, and on a plain pool the call
  fails with the nesting error instead. A pool whose locale is a token refuses every
  concrete child locale.
\<close>

theorem addChildPool_locale_mismatch_accepted:
  "validateChildLocale (examplePool (Some ''us-west-2'') None None) (Some ''us-east-1'') \<and>
   map_sum id pool_locale
     (fst (addChildPool ''child'' (childLocale ''us-east-1'')
        (examplePool (Some ''us-west-2'') (Some (AdvertiseService_of ''ec2'')) (Some BYOIP))
        emptyWorld)) = Inr (Some ''us-east-1'') \<and>
   fst (addChildPool ''child'' (childLocale ''us-east-1'')
        (examplePool (Some ''us-west-2'') None None) emptyWorld) = Inl NestingUnsupported \<and>
   fst (addChildPool ''child'' (childLocale ''us-east-1'')
        (examplePool (Some ''${Token[TOKEN.1]}'') (Some (AdvertiseService_of ''ec2'')) (Some BYOIP))
        emptyWorld) = Inl LocaleMismatch"
  by (simp add: pool_defs Let_def)

text \<open>
  C3: nesting is to be refused exactly for a pool with an advertise service and the source
  BYOIP. \<open>addChildPool\<close> raises the error when \<open>validateNestingSupport\<close> holds, which is when
  nesting is supported: the pool with the service \<open>ec2\<close> and the source BYOIP gets its
  child, and a pool with neither is refused.
\<close>

theorem addChildPool_nesting_check_inverted:
  "map_sum id node_path
     (fst (addChildPool ''child'' None
        (examplePool None (Some (AdvertiseService_of ''ec2'')) (Some BYOIP)) emptyWorld)) =
     Inr [''Stack'', ''pool'', ''pool-child''] \<and>
   fst (addChildPool ''child'' None (examplePool None None None) emptyWorld) =
     Inl NestingUnsupported \<and>
   fst (addChildPool ''child'' None
        (examplePool None (Some (AdvertiseService_of ''ec2'')) (Some AMAZON)) emptyWorld) =
     Inl NestingUnsupported"
  by (simp add: pool_defs AMAZON_def Let_def)

text \<open>
  C4: a literal is in \<open>provisionedCidrs\<close> at most once. Registering inline a literal that is
  in the list already fails with the duplicate error and changes neither the pool nor the
  construct tree; the constructor yields a pool with a duplicate-free list, and so does
  \<open>addChildPool\<close> for the child; every operation on a pool with a duplicate-free list leaves
  it duplicate-free.
\<close>

theorem provisionedCidrs_no_duplicates:
  "(allowInline options \<noteq> Some False \<and> inline (configuration options) \<and>
      resolved_cidr (bind (configuration options) this) = Some c \<and> c \<noteq> [] \<and>
      c \<in> set (provisionedCidrs this)
      \<longrightarrow> addCidrToPool ident options this w = (Inl DuplicateCidr, this, w)) \<and>
   (case fst (IpamPool_new scope ident props w) of
      Inl e \<Rightarrow> True | Inr pool \<Rightarrow> distinct (provisionedCidrs pool)) \<and>
   (case fst (addChildPool ident childOptions this w) of
      Inl e \<Rightarrow> True | Inr child \<Rightarrow> distinct (provisionedCidrs child)) \<and>
   (distinct (provisionedCidrs this) \<longrightarrow>
      distinct (provisionedCidrs (fst (snd (addCidrToPool ident options this w)))) \<and>
      distinct (provisionedCidrs (fst (snd (addChildPool ident childOptions this w)))) \<and>
      distinct (provisionedCidrs
        (fst (snd (IpamPoolBase_allocateCidrFromPool ident allocOptions this w)))) \<and>
      distinct (provisionedCidrs (fst (snd (addTagRestriction key val this w)))))"
proof (intro conjI impI)
  assume "allowInline options \<noteq> Some False \<and> inline (configuration options) \<and>
      resolved_cidr (bind (configuration options) this) = Some c \<and> c \<noteq> [] \<and>
      c \<in> set (provisionedCidrs this)"
  then show "addCidrToPool ident options this w = (Inl DuplicateCidr, this, w)"
    by (simp add: addCidrToPool_duplicate)
next
  show "case fst (IpamPool_new scope ident props w) of
      Inl e \<Rightarrow> True | Inr pool \<Rightarrow> distinct (provisionedCidrs pool)"
    using IpamPool_new_distinct [of scope ident props w]
    by (cases "IpamPool_new scope ident props w") (auto split: sum.splits)
next
  show "case fst (addChildPool ident childOptions this w) of
      Inl e \<Rightarrow> True | Inr child \<Rightarrow> distinct (provisionedCidrs child)"
    using addChildPool_distinct [of ident childOptions this w]
    by (cases "addChildPool ident childOptions this w") (auto split: sum.splits)
next
  assume d: "distinct (provisionedCidrs this)"
  show "distinct (provisionedCidrs (fst (snd (addCidrToPool ident options this w))))"
    using addCidrToPool_distinct [OF d, of ident options w]
    by (cases "addCidrToPool ident options this w") auto
  show "distinct (provisionedCidrs (fst (snd (addChildPool ident childOptions this w))))"
    using addChildPool_frame [of ident childOptions this w] d
    by (cases "addChildPool ident childOptions this w") auto
  show "distinct (provisionedCidrs
        (fst (snd (IpamPoolBase_allocateCidrFromPool ident allocOptions this w))))"
    using allocateCidrFromPool_pool [of ident allocOptions this w] d
    by (cases "IpamPoolBase_allocateCidrFromPool ident allocOptions this w") auto
  show "distinct (provisionedCidrs (fst (snd (addTagRestriction key val this w))))"
    using addTagRestriction_cidrs [of key val this w] d
    by (cases "addTagRestriction key val this w") auto
qed

theorem provisionedCidrs_no_duplicates_witness:
  "allowInline (inlineCidr ''10.0.0.0/8'') \<noteq> Some False \<and>
   inline (configuration (inlineCidr ''10.0.0.0/8'')) \<and>
   resolved_cidr (bind (configuration (inlineCidr ''10.0.0.0/8''))
     (examplePool None None None\<lparr>provisionedCidrs := [''10.0.0.0/8'']\<rparr>)) = Some ''10.0.0.0/8'' \<and>
   ''10.0.0.0/8'' \<in> set (provisionedCidrs (examplePool None None None\<lparr>provisionedCidrs := [''10.0.0.0/8'']\<rparr>)) \<and>
   distinct (provisionedCidrs (examplePool None None None\<lparr>provisionedCidrs := [''10.0.0.0/8'']\<rparr>)) \<and>
   addCidrToPool ''again'' (inlineCidr ''10.0.0.0/8'')
       (examplePool None None None\<lparr>provisionedCidrs := [''10.0.0.0/8'']\<rparr>) emptyWorld =
     (Inl DuplicateCidr, examplePool None None None\<lparr>provisionedCidrs := [''10.0.0.0/8'']\<rparr>, emptyWorld) \<and>
   provisionedCidrs (fst (snd (addCidrToPool ''more'' (inlineCidr ''10.1.0.0/16'')
       (examplePool None None None\<lparr>provisionedCidrs := [''10.0.0.0/8'']\<rparr>) emptyWorld))) =
     [''10.0.0.0/8'', ''10.1.0.0/16''] \<and>
   distinct (provisionedCidrs (fst (snd (addCidrToPool ''more'' (inlineCidr ''10.1.0.0/16'')
       (examplePool None None None\<lparr>provisionedCidrs := [''10.0.0.0/8'']\<rparr>) emptyWorld)))) \<and>
   map_sum id provisionedCidrs
     (fst (IpamPool_new [''Stack''] ''pool'' (exampleProps [''10.0.0.0/8'', ''10.1.0.0/16'']) emptyWorld)) =
     Inr [''10.0.0.0/8'', ''10.1.0.0/16''] \<and>
   fst (IpamPool_new [''Stack''] ''pool'' (exampleProps [''10.0.0.0/8'', ''10.0.0.0/8'']) emptyWorld) =
     Inl DuplicateCidr"
proof -
  let ?pool = "examplePool None None None\<lparr>provisionedCidrs := [''10.0.0.0/8'']\<rparr>"
  have hyps: "allowInline (inlineCidr ''10.0.0.0/8'') \<noteq> Some False"
    "inline (configuration (inlineCidr ''10.0.0.0/8''))"
    "resolved_cidr (bind (configuration (inlineCidr ''10.0.0.0/8'')) ?pool) = Some ''10.0.0.0/8''"
    "''10.0.0.0/8'' \<in> set (provisionedCidrs ?pool)"
    "distinct (provisionedCidrs ?pool)"
    by (simp_all add: inlineCidr_def IpamPoolCidrConfiguration_cidr_def examplePool_def)
  have dup: "addCidrToPool ''again'' (inlineCidr ''10.0.0.0/8'') ?pool emptyWorld =
      (Inl DuplicateCidr, ?pool, emptyWorld)"
    using provisionedCidrs_no_duplicates [where options = "inlineCidr ''10.0.0.0/8''"
        and this = ?pool and c = "''10.0.0.0/8''" and ident = "''again''" and w = emptyWorld]
      hyps by simp
  have more: "provisionedCidrs (fst (snd (addCidrToPool ''more'' (inlineCidr ''10.1.0.0/16'')
       ?pool emptyWorld))) = [''10.0.0.0/8'', ''10.1.0.0/16'']"
    by (simp add: addCidrToPool_def inlineCidr_def IpamPoolCidrConfiguration_cidr_def
          examplePool_def truthyString_def)
  have kept: "distinct (provisionedCidrs (fst (snd (addCidrToPool ''more''
       (inlineCidr ''10.1.0.0/16'') ?pool emptyWorld))))"
    using provisionedCidrs_no_duplicates [where options = "inlineCidr ''10.1.0.0/16''"
        and this = ?pool and ident = "''more''" and w = emptyWorld]
      hyps(5) by blast
  have new: "map_sum id provisionedCidrs
     (fst (IpamPool_new [''Stack''] ''pool'' (exampleProps [''10.0.0.0/8'', ''10.1.0.0/16'']) emptyWorld)) =
     Inr [''10.0.0.0/8'', ''10.1.0.0/16'']"
    "fst (IpamPool_new [''Stack''] ''pool'' (exampleProps [''10.0.0.0/8'', ''10.0.0.0/8'']) emptyWorld) =
     Inl DuplicateCidr"
    by (simp_all add: IpamPool_new_def newConstruct_cases emptyWorld_def exampleProps_def
          addCidrToPool_def IpamPoolCidrConfiguration_cidr_def truthyString_def Let_def)
  show ?thesis
    using hyps dup more kept new by simp
qed

text \<open>
  C7: when inline registration is requested with an inline configuration whose binding
  yields no literal, \<open>addCidrToPool\<close> raises no error of its own: it records the warning and
  returns what the registration of \<open>IpamPoolBase\<close> returns, which for an unused id is the new
  CIDR resource with \<open>inline = false\<close>. The pool, and with it \<open>provisionedCidrs\<close>, is
  unchanged.
\<close>

theorem addCidrToPool_inline_fallback:
  assumes "allowInline options \<noteq> Some False" and "inline (configuration options)"
    and "\<not> truthyString (resolved_cidr (bind (configuration options) this))"
  shows "addCidrToPool ident options this w =
           IpamPoolBase_addCidrToPool ident options this
             (addWarning (node_path this) inlineFallbackWarning w) \<and>
         fst (snd (addCidrToPool ident options this w)) = this \<and>
         warnings (snd (snd (addCidrToPool ident options this w))) =
           warnings w @ [(node_path this, inlineFallbackWarning)] \<and>
         (node_path this @ [''cidr-'' @ ident] \<notin> set (constructs w) \<longrightarrow>
            fst (addCidrToPool ident options this w) =
              Inr \<lparr>result_cidr = Some \<lparr>cidr_path = node_path this @ [''cidr-'' @ ident],
                                        cidr_options = options, cidr_ipamPool = node_path this\<rparr>,
                    result_inline = False\<rparr>)"
  using assms
  by (cases "allowInline options")
     (simp_all add: addCidrToPool_def IpamPoolBase_addCidrToPool_def newConstruct_cases
        addWarning_def Let_def)

theorem addCidrToPool_inline_fallback_witness:
  "allowInline unboundConfiguration \<noteq> Some False \<and>
   inline (configuration unboundConfiguration) \<and>
   \<not> truthyString (resolved_cidr (bind (configuration unboundConfiguration) (examplePool None None None))) \<and>
   node_path (examplePool None None None) @ [''cidr-'' @ ''vpc''] \<notin> set (constructs emptyWorld) \<and>
   addCidrToPool ''vpc'' unboundConfiguration (examplePool None None None) emptyWorld =
     (Inr \<lparr>result_cidr = Some \<lparr>cidr_path = [''Stack'', ''pool'', ''cidr-vpc''],
                                cidr_options = unboundConfiguration,
                                cidr_ipamPool = [''Stack'', ''pool'']\<rparr>,
           result_inline = False\<rparr>,
      examplePool None None None,
      \<lparr>constructs = [[''Stack'', ''pool'', ''cidr-vpc'']],
       warnings = [([''Stack'', ''pool''], inlineFallbackWarning)]\<rparr>)"
proof -
  have hyps: "allowInline unboundConfiguration \<noteq> Some False"
    "inline (configuration unboundConfiguration)"
    "\<not> truthyString (resolved_cidr (bind (configuration unboundConfiguration) (examplePool None None None)))"
    by (simp_all add: unboundConfiguration_def truthyString_def)
  have fresh: "node_path (examplePool None None None) @ [''cidr-'' @ ''vpc''] \<notin> set (constructs emptyWorld)"
    by (simp add: emptyWorld_def)
  have path: "node_path (examplePool None None None) = [''Stack'', ''pool'']"
    by (simp add: examplePool_def)
  have base: "IpamPoolBase_addCidrToPool ''vpc'' unboundConfiguration (examplePool None None None)
      (addWarning (node_path (examplePool None None None)) inlineFallbackWarning emptyWorld) =
     (Inr \<lparr>result_cidr = Some \<lparr>cidr_path = [''Stack'', ''pool'', ''cidr-vpc''],
                                cidr_options = unboundConfiguration,
                                cidr_ipamPool = [''Stack'', ''pool'']\<rparr>,
           result_inline = False\<rparr>,
      examplePool None None None,
      \<lparr>constructs = [[''Stack'', ''pool'', ''cidr-vpc'']],
       warnings = [([''Stack'', ''pool''], inlineFallbackWarning)]\<rparr>)"
    by (simp add: IpamPoolBase_addCidrToPool_def newConstruct_cases addWarning_def emptyWorld_def path)
  show ?thesis
    using addCidrToPool_inline_fallback [OF hyps, of "''vpc''" emptyWorld] hyps fresh base
    by simp
qed

text \<open>
  C10: \<open>allocateCidrFromPool\<close> leaves the pool as it is, \<open>provisionedCidrs\<close> and every other
  field, and records no warning; for an id that is unused under the scope of the allocation
  it registers one construct and returns the allocation against this pool with the
  requested size.
\<close>

theorem allocateCidrFromPool_frame:
  "fst (snd (IpamPoolBase_allocateCidrFromPool ident options this w)) = this \<and>
   warnings (snd (snd (IpamPoolBase_allocateCidrFromPool ident options this w))) = warnings w \<and>
   ((case alloc_scope options of None \<Rightarrow> node_path this | Some s \<Rightarrow> s) @ [''allocation-'' @ ident]
      \<notin> set (constructs w) \<longrightarrow>
    fst (IpamPoolBase_allocateCidrFromPool ident options this w) =
      Inr \<lparr>allocation_path =
             (case alloc_scope options of None \<Rightarrow> node_path this | Some s \<Rightarrow> s)
               @ [''allocation-'' @ ident],
           allocation_netmask = alloc_netmask options,
           allocation_ipamPool = node_path this\<rparr> \<and>
    constructs (snd (snd (IpamPoolBase_allocateCidrFromPool ident options this w))) =
      constructs w @
        [(case alloc_scope options of None \<Rightarrow> node_path this | Some s \<Rightarrow> s)
           @ [''allocation-'' @ ident]])"
  by (simp add: IpamPoolBase_allocateCidrFromPool_def newConstruct_cases Let_def)

theorem allocateCidrFromPool_frame_witness:
  "[''Stack'', ''pool'', ''allocation-vpc''] \<notin> set (constructs emptyWorld) \<and>
   IpamPoolBase_allocateCidrFromPool ''vpc'' \<lparr>alloc_netmask = Some 24, alloc_scope = None\<rparr>
       (examplePool None None None\<lparr>provisionedCidrs := [''10.0.0.0/8'']\<rparr>) emptyWorld =
     (Inr \<lparr>allocation_path = [''Stack'', ''pool'', ''allocation-vpc''],
           allocation_netmask = Some 24, allocation_ipamPool = [''Stack'', ''pool'']\<rparr>,
      examplePool None None None\<lparr>provisionedCidrs := [''10.0.0.0/8'']\<rparr>,
      \<lparr>constructs = [[''Stack'', ''pool'', ''allocation-vpc'']], warnings = []\<rparr>)"
proof -
  let ?pool = "examplePool None None None\<lparr>provisionedCidrs := [''10.0.0.0/8'']\<rparr>"
  let ?options = "\<lparr>alloc_netmask = Some 24, alloc_scope = None\<rparr>"
  have path: "node_path ?pool = [''Stack'', ''pool'']"
    by (simp add: examplePool_def)
  have fresh: "[''Stack'', ''pool'', ''allocation-vpc''] \<notin> set (constructs emptyWorld)"
    by (simp add: emptyWorld_def)
  show ?thesis
    using allocateCidrFromPool_frame [of "''vpc''" ?options ?pool emptyWorld] fresh
    by (cases "IpamPoolBase_allocateCidrFromPool ''vpc'' ?options ?pool emptyWorld")
       (auto simp: path emptyWorld_def)
qed

section \<open>The container: the claims\<close>

text \<open>
  C8, as amended: \<open>addScope\<close> creates the scope whenever its id is unused under the
  container, whatever the number of scopes the container holds already, and the container
  then holds one scope more; the only failure is a used id, which changes nothing. The
  container enforces no quota.
\<close>

theorem addScope_no_quota:
  "(ipam_path this @ [''scope-'' @ ident] \<notin> set (constructs w) \<longrightarrow>
      fst (addScope ident options this w) =
        Inr \<lparr>private_scope_path = ipam_path this @ [''scope-'' @ ident],
             private_scope_options = options, private_scope_ipam = ipam_path this\<rparr> \<and>
      length (scopesOf this (snd (addScope ident options this w))) = Suc (length (scopesOf this w))) \<and>
   (ipam_path this @ [''scope-'' @ ident] \<in> set (constructs w) \<longrightarrow>
      addScope ident options this w = (Inl DuplicateConstruct, w))"
  by (simp add: addScope_def newConstruct_cases scopesOf_def)

theorem addScope_no_quota_witness:
  "ipam_path exampleIpam @ [''scope-'' @ ''f''] \<notin> set (constructs fiveScopes) \<and>
   length (scopesOf exampleIpam fiveScopes) = 5 \<and>
   length (scopesOf exampleIpam
     (snd (addScope ''f'' \<lparr>scope_description = None\<rparr> exampleIpam fiveScopes))) = 6 \<and>
   ipam_path exampleIpam @ [''scope-'' @ ''e''] \<in> set (constructs fiveScopes) \<and>
   addScope ''e'' \<lparr>scope_description = None\<rparr> exampleIpam fiveScopes =
     (Inl DuplicateConstruct, fiveScopes)"
proof -
  have fresh: "ipam_path exampleIpam @ [''scope-'' @ ''f''] \<notin> set (constructs fiveScopes)"
    and used: "ipam_path exampleIpam @ [''scope-'' @ ''e''] \<in> set (constructs fiveScopes)"
    and five: "length (scopesOf exampleIpam fiveScopes) = 5"
    by (simp_all add: exampleIpam_def fiveScopes_def scopesOf_def)
  show ?thesis
    using addScope_no_quota [of exampleIpam "''f''" fiveScopes "\<lparr>scope_description = None\<rparr>"]
      addScope_no_quota [of exampleIpam "''e''" fiveScopes "\<lparr>scope_description = None\<rparr>"]
      fresh used five
    by simp
qed

text \<open>
  C8, as stated, fails: a container that holds five scopes, and whose scope count is five,
  creates the sixth.
\<close>

theorem addScope_quota_counterexample:
  "length (scopesOf exampleIpam fiveScopes) = 5 \<and>
   ipamScopeCount exampleIpam = Some 5 \<and>
   fst (addScope ''f'' \<lparr>scope_description = None\<rparr> exampleIpam fiveScopes) =
     Inr \<lparr>private_scope_path = [''Stack'', ''ipam'', ''scope-f''],
          private_scope_options = \<lparr>scope_description = None\<rparr>,
          private_scope_ipam = [''Stack'', ''ipam'']\<rparr> \<and>
   length (scopesOf exampleIpam
     (snd (addScope ''f'' \<lparr>scope_description = None\<rparr> exampleIpam fiveScopes))) = 6"
  by (simp add: scopesOf_def exampleIpam_def fiveScopes_def addScope_def newConstruct_cases)

text \<open>
  C9, as amended: the id of the association is derived from the address of the discovery
  reference. After a first association, associating a reference of the same address again
  fails with the error of the construct tree and changes nothing, so the container holds
  one association for that reference.
\<close>

theorem associateResourceDiscovery_twice:
  assumes "fst (associateResourceDiscovery resourceDiscovery this w) = Inr a"
    and "discovery_addr again = discovery_addr resourceDiscovery"
  shows "associateResourceDiscovery again this (snd (associateResourceDiscovery resourceDiscovery this w)) =
           (Inl DuplicateConstruct, snd (associateResourceDiscovery resourceDiscovery this w)) \<and>
         association_path a =
           ipam_path this @ [''resource-discovery-'' @ discovery_addr resourceDiscovery] \<and>
         length (associationsOf this resourceDiscovery
                   (snd (associateResourceDiscovery resourceDiscovery this w))) = 1"
  using assms
  by (auto simp: associateResourceDiscovery_def IpamResourceDiscoveryAssociation_new_def
        newConstruct_cases associationsOf_def filter_empty_conv split: if_splits)

theorem associateResourceDiscovery_twice_witness:
  "fst (associateResourceDiscovery exampleDiscovery exampleIpam emptyWorld) =
     Inr \<lparr>association_path = [''Stack'', ''ipam'', ''resource-discovery-c8a1''],
          association_ipam = [''Stack'', ''ipam''],
          association_ipamResourceDiscovery = exampleDiscovery\<rparr> \<and>
   discovery_addr exampleDiscovery = discovery_addr exampleDiscovery \<and>
   associateResourceDiscovery exampleDiscovery exampleIpam
       (snd (associateResourceDiscovery exampleDiscovery exampleIpam emptyWorld)) =
     (Inl DuplicateConstruct, snd (associateResourceDiscovery exampleDiscovery exampleIpam emptyWorld)) \<and>
   length (associationsOf exampleIpam exampleDiscovery
             (snd (associateResourceDiscovery exampleDiscovery exampleIpam emptyWorld))) = 1"
proof -
  have first: "fst (associateResourceDiscovery exampleDiscovery exampleIpam emptyWorld) =
     Inr \<lparr>association_path = [''Stack'', ''ipam'', ''resource-discovery-c8a1''],
          association_ipam = [''Stack'', ''ipam''],
          association_ipamResourceDiscovery = exampleDiscovery\<rparr>"
    by (simp add: associateResourceDiscovery_def IpamResourceDiscoveryAssociation_new_def
          newConstruct_cases exampleIpam_def emptyWorld_def exampleDiscovery_def)
  show ?thesis
    using associateResourceDiscovery_twice [OF first refl] first by simp
qed

text \<open>
  C9, as stated, fails: the second association of the same reference is no silent no-op,
  it raises the error of the construct tree.
\<close>

theorem associateResourceDiscovery_twice_counterexample:
  "fst (associateResourceDiscovery exampleDiscovery exampleIpam
          (snd (associateResourceDiscovery exampleDiscovery exampleIpam emptyWorld))) =
     Inl DuplicateConstruct"
  by (simp add: associateResourceDiscovery_def IpamResourceDiscoveryAssociation_new_def
        newConstruct_cases exampleDiscovery_def exampleIpam_def emptyWorld_def)

end
